theory Spec2Isabelle
  imports Complex_Main "HOL-Library.Sublist" "HOL-Library.List_Lexorder" "HOL-Library.Char_ord"
    "HOL-Library.AList"
begin

section \<open>Python values as the program sees them\<close>

text \<open>
  The program is a single Python module, \<^verbatim>\<open>geojson_merger.py\<close>. Its functions work on
  parsed JSON documents (nested dicts, lists and scalars), on pandas data frames and on
  shapely geometries. A Python float is NaN, an infinity or a finite number; the program
  never does arithmetic on floats, it only compares them and tests them for NaN, so a
  finite float is read as the real number it denotes.
\<close>

datatype float64 = NaN | NegInf | Fin real | PosInf

text \<open>
  A parsed JSON document. A dict keeps its insertion order and is an association list;
  lookups take the first binding of a key (a Python dict has one binding per key).
\<close>

datatype json =
    JNull
  | JBool bool
  | JInt int
  | JFloat float64
  | JStr string
  | JArr "json list"
  | JObj "(string \<times> json) list"

text \<open>
  Exceptions are values. Each carries the text that \<^verbatim>\<open>str(e)\<close> gives; for a
  \<^verbatim>\<open>KeyError\<close> the field is the missing key and \<^verbatim>\<open>str(e)\<close> is the key in quotes.
  The texts that the interpreter itself produces are those of CPython 3.12; no property
  below depends on their wording, except where it is stated.
\<close>

datatype exn =
    KeyError string
  | TypeError string
  | ValueError string
  | JSONDecodeError string

fun exn_str :: "exn \<Rightarrow> string" where
  "exn_str (KeyError k) = [CHR 0x27] @ k @ [CHR 0x27]"
| "exn_str (TypeError m) = m"
| "exn_str (ValueError m) = m"
| "exn_str (JSONDecodeError m) = m"

definition ebind :: "exn + 'a \<Rightarrow> ('a \<Rightarrow> exn + 'b) \<Rightarrow> exn + 'b" where
  "ebind m f = (case m of Inl e \<Rightarrow> Inl e | Inr x \<Rightarrow> f x)"

fun type_name :: "json \<Rightarrow> string" where
  "type_name JNull = ''NoneType''"
| "type_name (JBool _) = ''bool''"
| "type_name (JInt _) = ''int''"
| "type_name (JFloat _) = ''float''"
| "type_name (JStr _) = ''str''"
| "type_name (JArr _) = ''list''"
| "type_name (JObj _) = ''dict''"

text \<open>Truthiness, as \<^verbatim>\<open>if x\<close> and \<^verbatim>\<open>not x\<close> read a value.\<close>

fun truthy :: "json \<Rightarrow> bool" where
  "truthy JNull = False"
| "truthy (JBool b) = b"
| "truthy (JInt i) = (i \<noteq> 0)"
| "truthy (JFloat x) = (x \<noteq> Fin 0)"
| "truthy (JStr s) = (s \<noteq> [])"
| "truthy (JArr xs) = (xs \<noteq> [])"
| "truthy (JObj kv) = (kv \<noteq> [])"

fun isinstance_dict :: "json \<Rightarrow> bool" where
  "isinstance_dict (JObj _) = True"
| "isinstance_dict _ = False"

text \<open>
  \<^verbatim>\<open>k in x\<close> for a string \<open>k\<close>: key membership in a dict, element membership in a
  list, substring test in a string, and a \<^verbatim>\<open>TypeError\<close> on the other scalars.
\<close>

fun py_in :: "string \<Rightarrow> json \<Rightarrow> exn + bool" where
  "py_in k (JObj kv) = Inr (map_of kv k \<noteq> None)"
| "py_in k (JArr xs) = Inr (JStr k \<in> set xs)"
| "py_in k (JStr s) = Inr (sublist k s)"
| "py_in k v = Inl (TypeError (''argument of type '' @ [CHR 0x27] @ type_name v @ [CHR 0x27]
                                 @ '' is not iterable''))"

text \<open>\<^verbatim>\<open>x[k]\<close> for a string \<open>k\<close>.\<close>

fun py_getitem :: "json \<Rightarrow> string \<Rightarrow> exn + json" where
  "py_getitem (JObj kv) k = (case map_of kv k of None \<Rightarrow> Inl (KeyError k) | Some v \<Rightarrow> Inr v)"
| "py_getitem (JArr xs) k = Inl (TypeError ''list indices must be integers or slices, not str'')"
| "py_getitem (JStr s) k = Inl (TypeError (''string indices must be integers, not ''
                                            @ [CHR 0x27] @ ''str'' @ [CHR 0x27]))"
| "py_getitem v k = Inl (TypeError ([CHR 0x27] @ type_name v @ [CHR 0x27]
                                      @ '' object is not subscriptable''))"

text \<open>
  \<^verbatim>\<open>for x in v\<close>: the elements of a list, the keys of a dict, the characters of a
  string; the other scalars are not iterable. A \<^typ>\<open>string\<close> is a list of bytes, so
  the characters of a string are Python's only for ASCII text.
\<close>

fun py_iter :: "json \<Rightarrow> exn + json list" where
  "py_iter (JArr xs) = Inr xs"
| "py_iter (JObj kv) = Inr (map (\<lambda>p. JStr (fst p)) kv)"
| "py_iter (JStr s) = Inr (map (\<lambda>c. JStr [c]) s)"
| "py_iter v = Inl (TypeError ([CHR 0x27] @ type_name v @ [CHR 0x27]
                                 @ '' object is not iterable''))"

section \<open>validate\_geojson\<close>

text \<open>
  \<^verbatim>\<open>json.loads\<close> applied to an argument that is not text raises a \<^verbatim>\<open>TypeError\<close>
  before any parsing. The parser itself belongs to the standard library and is the
  parameter \<open>loads\<close>: it returns the parsed document or the decoding error.
\<close>

definition json_loads :: "(string \<Rightarrow> exn + json) \<Rightarrow> json \<Rightarrow> exn + json" where
  "json_loads loads x =
     (case x of
        JStr s \<Rightarrow> loads s
      | _ \<Rightarrow> Inl (TypeError (''the JSON object must be str, bytes or bytearray, not ''
                                @ type_name x)))"

text \<open>
  The body of the \<^verbatim>\<open>try\<close> block after the document has been obtained.
  \<^verbatim>\<open>all(field in d for field in ['type', 'features'])\<close> stops at the first field that
  is absent.
\<close>

definition has_required_fields :: "json \<Rightarrow> exn + bool" where
  "has_required_fields d =
     ebind (py_in ''type'' d) (\<lambda>t. if t then py_in ''features'' d else Inr False)"

definition validate_geojson_checks :: "json \<Rightarrow> exn + bool \<times> string" where
  "validate_geojson_checks d =
     ebind (has_required_fields d) (\<lambda>ok.
       if \<not> ok then Inr (False, ''Invalid GeoJSON structure: missing required fields'')
       else ebind (py_getitem d ''type'') (\<lambda>t.
         if t \<noteq> JStr ''FeatureCollection''
         then Inr (False, ''Invalid GeoJSON: root type must be '' @ [CHR 0x27]
                          @ ''FeatureCollection'' @ [CHR 0x27])
         else ebind (py_getitem d ''features'') (\<lambda>fs.
           if \<not> truthy fs then Inr (False, ''GeoJSON contains no features'')
           else Inr (True, ''Valid GeoJSON''))))"

definition validate_geojson :: "(string \<Rightarrow> exn + json) \<Rightarrow> json \<Rightarrow> bool \<times> string" where
  "validate_geojson loads geojson_data =
     (case ebind (if \<not> isinstance_dict geojson_data then json_loads loads geojson_data
                  else Inr geojson_data) validate_geojson_checks of
        Inl e \<Rightarrow> (False, ''Invalid GeoJSON: '' @ exn_str e)
      | Inr r \<Rightarrow> r)"

section \<open>get\_property\_values and filter\_geojson\<close>

text \<open>
  \<^verbatim>\<open>str\<close> is Python's builtin. Its rendering of numbers and of nested values is not part
  of the program, so every function that calls it takes it as the parameter \<open>str_of\<close>.

  \<^verbatim>\<open>get_property_values\<close> collects into a set and returns \<^verbatim>\<open>sorted(list(values))\<close>.
  Python orders strings by code point, lexicographically; that is the order of
  \<^typ>\<open>string\<close> here.
\<close>

definition gpv_step :: "(json \<Rightarrow> string) \<Rightarrow> string \<Rightarrow> json \<Rightarrow> string set \<Rightarrow> exn + string set" where
  "gpv_step str_of property_name feature vals =
     ebind (py_in ''properties'' feature) (\<lambda>has_props.
       if \<not> has_props then Inr vals
       else ebind (py_getitem feature ''properties'') (\<lambda>props.
         ebind (py_in property_name props) (\<lambda>has.
           if \<not> has then Inr vals
           else ebind (py_getitem feature ''properties'') (\<lambda>props2.
             ebind (py_getitem props2 property_name) (\<lambda>v.
               Inr (insert (str_of v) vals))))))"

fun gpv_loop :: "(json \<Rightarrow> string) \<Rightarrow> string \<Rightarrow> json list \<Rightarrow> string set \<Rightarrow> exn + string set" where
  "gpv_loop str_of property_name [] vals = Inr vals"
| "gpv_loop str_of property_name (feature # rest) vals =
     ebind (gpv_step str_of property_name feature vals) (gpv_loop str_of property_name rest)"

definition get_property_values :: "(json \<Rightarrow> string) \<Rightarrow> json \<Rightarrow> string \<Rightarrow> exn + string list" where
  "get_property_values str_of geojson_data property_name =
     ebind (py_getitem geojson_data ''features'') (\<lambda>fs.
       ebind (py_iter fs) (\<lambda>features.
         ebind (gpv_loop str_of property_name features {}) (\<lambda>vals.
           Inr (sorted_list_of_set vals))))"

text \<open>
  The filters are a dict from property name to the list of selected values, walked in
  insertion order by \<^verbatim>\<open>filters.items()\<close>. \<open>include_feature\<close> is the inner loop: it
  yields the final value of the flag \<^verbatim>\<open>include_feature\<close>; \<^verbatim>\<open>continue\<close> moves
  on to the next filter and \<^verbatim>\<open>break\<close> ends the loop with the flag cleared.
\<close>

type_synonym filters = "(string \<times> string list) list"

fun include_feature :: "(json \<Rightarrow> string) \<Rightarrow> json \<Rightarrow> filters \<Rightarrow> exn + bool" where
  "include_feature str_of feature [] = Inr True"
| "include_feature str_of feature ((prop, vals) # rest) =
     (if vals = [] then include_feature str_of feature rest
      else ebind (py_getitem feature ''properties'') (\<lambda>props.
        ebind (py_in prop props) (\<lambda>has.
          if \<not> has then Inr False
          else ebind (py_getitem feature ''properties'') (\<lambda>props2.
            ebind (py_getitem props2 prop) (\<lambda>v.
              if str_of v \<notin> set vals then Inr False
              else include_feature str_of feature rest)))))"

fun filter_loop :: "(json \<Rightarrow> string) \<Rightarrow> filters \<Rightarrow> json list \<Rightarrow> json list \<Rightarrow> exn + json list" where
  "filter_loop str_of flt [] filtered_features = Inr filtered_features"
| "filter_loop str_of flt (feature # rest) filtered_features =
     ebind (include_feature str_of feature flt) (\<lambda>inc.
       filter_loop str_of flt rest
         (if inc then filtered_features @ [feature] else filtered_features))"

definition filter_geojson :: "(json \<Rightarrow> string) \<Rightarrow> json \<Rightarrow> filters \<Rightarrow> exn + json" where
  "filter_geojson str_of geojson_data flt =
     (if flt = [] then Inr geojson_data
      else ebind (py_getitem geojson_data ''features'') (\<lambda>fs.
        ebind (py_iter fs) (\<lambda>features.
          ebind (filter_loop str_of flt features []) (\<lambda>filtered_features.
            Inr (JObj [(''type'', JStr ''FeatureCollection''),
                       (''features'', JArr filtered_features)])))))"

text \<open>
  The words of the specification, for comparison with the code: the properties mapping of
  a feature, and what it means for a feature to pass one constraint.
\<close>

definition feature_properties :: "json \<Rightarrow> (string \<times> json) list option" where
  "feature_properties feature =
     (case feature of
        JObj kv \<Rightarrow> (case map_of kv ''properties'' of Some (JObj props) \<Rightarrow> Some props | _ \<Rightarrow> None)
      | _ \<Rightarrow> None)"

definition passes_constraint :: "(json \<Rightarrow> string) \<Rightarrow> json \<Rightarrow> string \<times> string list \<Rightarrow> bool" where
  "passes_constraint str_of feature c =
     (snd c = [] \<or>
      (case feature_properties feature of
         None \<Rightarrow> False
       | Some props \<Rightarrow>
           (case map_of props (fst c) of None \<Rightarrow> False | Some v \<Rightarrow> str_of v \<in> set (snd c))))"

definition passes_all :: "(json \<Rightarrow> string) \<Rightarrow> filters \<Rightarrow> json \<Rightarrow> bool" where
  "passes_all str_of flt feature = list_all (passes_constraint str_of feature) flt"

text \<open>
  A FeatureCollection of the data model: a mapping whose \<^verbatim>\<open>features\<close> entry is a list
  of features, each a mapping with a \<^verbatim>\<open>properties\<close> mapping.
\<close>

definition feature_list :: "json \<Rightarrow> json list option" where
  "feature_list d =
     (case d of
        JObj kv \<Rightarrow> (case map_of kv ''features'' of Some (JArr fs) \<Rightarrow> Some fs | _ \<Rightarrow> None)
      | _ \<Rightarrow> None)"

definition is_feature_collection :: "json \<Rightarrow> bool" where
  "is_feature_collection d =
     (case feature_list d of
        None \<Rightarrow> False
      | Some fs \<Rightarrow> list_all (\<lambda>f. feature_properties f \<noteq> None) fs)"

text \<open>
  The stringified value a feature contributes for a property, if it has one, and the
  values contributed by a list of features. A feature for \<^verbatim>\<open>get_property_values\<close>
  is a mapping whose \<^verbatim>\<open>properties\<close> entry, when present, is a mapping.
\<close>

definition property_value :: "(json \<Rightarrow> string) \<Rightarrow> string \<Rightarrow> json \<Rightarrow> string option" where
  "property_value str_of property_name feature =
     (case feature_properties feature of
        None \<Rightarrow> None
      | Some props \<Rightarrow> map_option str_of (map_of props property_name))"

definition property_strings :: "(json \<Rightarrow> string) \<Rightarrow> string \<Rightarrow> json list \<Rightarrow> string set" where
  "property_strings str_of property_name fs =
     set (List.map_filter (property_value str_of property_name) fs)"

definition properties_absent_or_mapping :: "json \<Rightarrow> bool" where
  "properties_absent_or_mapping feature =
     (case feature of
        JObj kv \<Rightarrow> (case map_of kv ''properties'' of
                      None \<Rightarrow> True | Some (JObj props) \<Rightarrow> True | Some _ \<Rightarrow> False)
      | _ \<Rightarrow> False)"

section \<open>Geometries\<close>

text \<open>
  Shapely geometries in two dimensions, by their coordinates. A polygon is its list of
  rings, the shell first. Parsing a GeoJSON geometry (\<^verbatim>\<open>shape\<close>) and the planar union
  (\<^verbatim>\<open>unary_union\<close>) belong to shapely and are the parameters \<open>shape\<close> and
  \<open>unary_union\<close> of the functions below; either may raise. A geometry is empty when
  it has no coordinates; an empty point is not represented.
\<close>

type_synonym position = "float64 \<times> float64"

datatype geometry =
    Point position
  | MultiPoint "position list"
  | LineString "position list"
  | MultiLineString "position list list"
  | Polygon "position list list"
  | MultiPolygon "position list list list"
  | GeometryCollection "geometry list"

fun geom_type :: "geometry \<Rightarrow> string" where
  "geom_type (Point _) = ''Point''"
| "geom_type (MultiPoint _) = ''MultiPoint''"
| "geom_type (LineString _) = ''LineString''"
| "geom_type (MultiLineString _) = ''MultiLineString''"
| "geom_type (Polygon _) = ''Polygon''"
| "geom_type (MultiPolygon _) = ''MultiPolygon''"
| "geom_type (GeometryCollection _) = ''GeometryCollection''"

definition ring_list_empty :: "position list list \<Rightarrow> bool" where
  "ring_list_empty rings = (case rings of [] \<Rightarrow> True | shell # _ \<Rightarrow> shell = [])"

fun is_empty :: "geometry \<Rightarrow> bool" where
  "is_empty (Point _) = False"
| "is_empty (MultiPoint ps) = (ps = [])"
| "is_empty (LineString ps) = (ps = [])"
| "is_empty (MultiLineString ls) = list_all (\<lambda>l. l = []) ls"
| "is_empty (Polygon rings) = ring_list_empty rings"
| "is_empty (MultiPolygon polys) = list_all ring_list_empty polys"
| "is_empty (GeometryCollection gs) = list_all is_empty gs"

text \<open>
  \<^verbatim>\<open>MultiPolygon(polygons)\<close>: the constructor leaves out empty polygons and takes the
  rings of the others; an element that is not a polygon is an error.
\<close>

fun polygon_rings :: "geometry \<Rightarrow> exn + position list list" where
  "polygon_rings (Polygon rings) = Inr rings"
| "polygon_rings g = Inl (TypeError (''not a polygon: '' @ geom_type g))"

fun collect_rings :: "geometry list \<Rightarrow> exn + position list list list" where
  "collect_rings [] = Inr []"
| "collect_rings (g # gs) =
     ebind (polygon_rings g) (\<lambda>rings.
       ebind (collect_rings gs) (\<lambda>rest. Inr (rings # rest)))"

definition multi_polygon :: "geometry list \<Rightarrow> exn + geometry" where
  "multi_polygon polygons =
     ebind (collect_rings (filter (\<lambda>p. \<not> is_empty p) polygons)) (\<lambda>parts.
       Inr (MultiPolygon parts))"

text \<open>\<^verbatim>\<open>mapping(g)\<close>: the GeoJSON form of a geometry.\<close>

definition position_json :: "position \<Rightarrow> json" where
  "position_json p = JArr [JFloat (fst p), JFloat (snd p)]"

definition line_json :: "position list \<Rightarrow> json" where
  "line_json ps = JArr (map position_json ps)"

definition rings_json :: "position list list \<Rightarrow> json" where
  "rings_json rings = JArr (map line_json rings)"

fun mapping :: "geometry \<Rightarrow> json" where
  "mapping (Point p) = JObj [(''type'', JStr ''Point''), (''coordinates'', position_json p)]"
| "mapping (MultiPoint ps) = JObj [(''type'', JStr ''MultiPoint''), (''coordinates'', line_json ps)]"
| "mapping (LineString ps) = JObj [(''type'', JStr ''LineString''), (''coordinates'', line_json ps)]"
| "mapping (MultiLineString ls) =
     JObj [(''type'', JStr ''MultiLineString''), (''coordinates'', rings_json ls)]"
| "mapping (Polygon rings) = JObj [(''type'', JStr ''Polygon''), (''coordinates'', rings_json rings)]"
| "mapping (MultiPolygon polys) =
     JObj [(''type'', JStr ''MultiPolygon''), (''coordinates'', JArr (map rings_json polys))]"
| "mapping (GeometryCollection gs) =
     JObj [(''type'', JStr ''GeometryCollection''), (''geometries'', JArr (map mapping gs))]"

section \<open>Data frames and the CSV functions\<close>

text \<open>
  The values pandas hands to Python: a number, which is an int or a float (NaN when a
  field is missing), or text. \<^verbatim>\<open>str\<close> renders the int 1 as \<^verbatim>\<open>1\<close> and the float 1.0 as
  \<^verbatim>\<open>1.0\<close>, so the two are different values. Booleans and dates are not modelled, and
  ints are unbounded.
\<close>

datatype number = NInt int | NFloat float64

datatype pyval = Num number | Str string

text \<open>\<^verbatim>\<open>float(n)\<close>; on an int beyond 2**53 Python rounds, which the model does not.\<close>

fun to_float :: "number \<Rightarrow> float64" where
  "to_float (NInt k) = Fin (of_int k)"
| "to_float (NFloat x) = x"

text \<open>
  A data frame is its index (the row labels, in order) and its named columns. A column has
  a dtype, \<^verbatim>\<open>int64\<close>, \<^verbatim>\<open>float64\<close> or \<^verbatim>\<open>object\<close>, and holds one value of that type for
  each row label; it is read at the labels of the index only. Column names are looked up
  by their first occurrence; pandas gives the columns of a CSV file distinct names.
\<close>

datatype column =
    IntCol "nat \<Rightarrow> int"
  | FloatCol "nat \<Rightarrow> float64"
  | ObjCol "nat \<Rightarrow> pyval"

record dataframe =
  index :: "nat list"
  columns :: "(string \<times> column) list"

fun col_at :: "column \<Rightarrow> nat \<Rightarrow> pyval" where
  "col_at (IntCol f) i = Num (NInt (f i))"
| "col_at (FloatCol f) i = Num (NFloat (f i))"
| "col_at (ObjCol f) i = f i"

datatype dtype = Int64 | Float64 | Object

fun dtype_of :: "column \<Rightarrow> dtype" where
  "dtype_of (IntCol _) = Int64"
| "dtype_of (FloatCol _) = Float64"
| "dtype_of (ObjCol _) = Object"

text \<open>
  \<^verbatim>\<open>pd.to_numeric(s, errors='coerce')\<close> gives a numeric series. A numeric column is kept;
  in an object column a number is kept and text is parsed, giving NaN where the text is
  not numeric, and the result is an \<^verbatim>\<open>int64\<close> series when every entry came out an int and
  a \<^verbatim>\<open>float64\<close> series otherwise. The text parser belongs to pandas and is the parameter
  \<open>parse\<close>; it yields an int or a float, or nothing. \<open>int_of\<close> reads an entry of an
  \<^verbatim>\<open>int64\<close> result, where every entry at the index is an int.
\<close>

datatype series = IntSeries "nat \<Rightarrow> int" | FloatSeries "nat \<Rightarrow> float64"

fun as_column :: "series \<Rightarrow> column" where
  "as_column (IntSeries f) = IntCol f"
| "as_column (FloatSeries f) = FloatCol f"

text \<open>An entry of a numeric series, as the float it is compared as.\<close>

fun series_at :: "series \<Rightarrow> nat \<Rightarrow> float64" where
  "series_at (IntSeries f) i = Fin (of_int (f i))"
| "series_at (FloatSeries f) i = f i"

fun coerce :: "(string \<Rightarrow> number option) \<Rightarrow> pyval \<Rightarrow> number" where
  "coerce parse (Num n) = n"
| "coerce parse (Str s) = (case parse s of None \<Rightarrow> NFloat NaN | Some n \<Rightarrow> n)"

fun is_int :: "number \<Rightarrow> bool" where
  "is_int (NInt _) = True"
| "is_int (NFloat _) = False"

fun int_of :: "number \<Rightarrow> int" where
  "int_of (NInt k) = k"
| "int_of (NFloat _) = 0"

definition to_numeric :: "(string \<Rightarrow> number option) \<Rightarrow> nat list \<Rightarrow> column \<Rightarrow> series" where
  "to_numeric parse idx col =
     (case col of
        IntCol f \<Rightarrow> IntSeries f
      | FloatCol f \<Rightarrow> FloatSeries f
      | ObjCol f \<Rightarrow>
          if list_all (\<lambda>i. is_int (coerce parse (f i))) idx
          then IntSeries (\<lambda>i. int_of (coerce parse (f i)))
          else FloatSeries (\<lambda>i. to_float (coerce parse (f i))))"

text \<open>\<^verbatim>\<open>df[c]\<close> as a read and as an assignment of a whole column.\<close>

definition get_column :: "dataframe \<Rightarrow> string \<Rightarrow> exn + column" where
  "get_column df c =
     (case map_of (columns df) c of None \<Rightarrow> Inl (KeyError c) | Some col \<Rightarrow> Inr col)"

definition set_column :: "dataframe \<Rightarrow> string \<Rightarrow> series \<Rightarrow> dataframe" where
  "set_column df c s = df\<lparr>columns := AList.update c (as_column s) (columns df)\<rparr>"

definition isna :: "float64 \<Rightarrow> bool" where
  "isna x = (x = NaN)"

fun notnull :: "pyval \<Rightarrow> bool" where
  "notnull (Num (NFloat x)) = (x \<noteq> NaN)"
| "notnull (Num (NInt k)) = True"
| "notnull (Str s) = True"

text \<open>Comparison of floats: every comparison with NaN is false.\<close>

fun fle :: "float64 \<Rightarrow> float64 \<Rightarrow> bool" where
  "fle NaN _ = False"
| "fle _ NaN = False"
| "fle NegInf _ = True"
| "fle _ PosInf = True"
| "fle (Fin a) (Fin b) = (a \<le> b)"
| "fle _ _ = False"

definition validate_csv_coordinates ::
  "(string \<Rightarrow> number option) \<Rightarrow> dataframe \<Rightarrow> string \<Rightarrow> string \<Rightarrow> bool \<times> string" where
  "validate_csv_coordinates parse df lat_col lon_col =
     (case
        (if lat_col \<notin> set (map fst (columns df)) \<or> lon_col \<notin> set (map fst (columns df))
         then Inr (False, ''Selected columns not found in CSV'')
         else ebind (get_column df lat_col) (\<lambda>lat_cells.
              ebind (get_column df lon_col) (\<lambda>lon_cells.
                let lats = to_numeric parse (index df) lat_cells;
                    lons = to_numeric parse (index df) lon_cells
                in if list_all (\<lambda>i. isna (series_at lats i)) (index df)
                      \<or> list_all (\<lambda>i. isna (series_at lons i)) (index df)
                   then Inr (False, ''Selected columns do not contain valid numeric data'')
                   else if \<not> list_all (\<lambda>i. fle (Fin (- 90)) (series_at lats i)
                                              \<and> fle (series_at lats i) (Fin 90)) (index df)
                   then Inr (False, ''Latitude values must be between -90 and 90'')
                   else if \<not> list_all (\<lambda>i. fle (Fin (- 180)) (series_at lons i)
                                              \<and> fle (series_at lons i) (Fin 180)) (index df)
                   then Inr (False, ''Longitude values must be between -180 and 180'')
                   else Inr (True, ''Valid coordinates''))))
      of
        Inl e \<Rightarrow> (False, ''Error validating coordinates: '' @ exn_str e)
      | Inr r \<Rightarrow> r)"

text \<open>
  \<^verbatim>\<open>df.dropna(subset=cs)\<close> builds a new data frame without the rows that have NaN in
  one of the columns \<open>cs\<close>; the rows that stay keep their labels. A name in \<open>cs\<close> that is
  not a column is a \<^verbatim>\<open>KeyError\<close>.
\<close>

definition cell_notnull :: "dataframe \<Rightarrow> nat \<Rightarrow> string \<Rightarrow> bool" where
  "cell_notnull df i c =
     (case map_of (columns df) c of None \<Rightarrow> False | Some col \<Rightarrow> notnull (col_at col i))"

definition dropna :: "dataframe \<Rightarrow> string list \<Rightarrow> exn + dataframe" where
  "dropna df cs =
     (case filter (\<lambda>c. c \<notin> set (map fst (columns df))) cs of
        [] \<Rightarrow> Inr (df\<lparr>index := filter (\<lambda>i. list_all (cell_notnull df i) cs) (index df)\<rparr>)
      | c # _ \<Rightarrow> Inl (KeyError c))"

text \<open>
  \<^verbatim>\<open>df.iterrows()\<close> yields each row as one Series, which has one dtype for all its
  entries: \<^verbatim>\<open>object\<close> when the frame has an object column, \<^verbatim>\<open>int64\<close> when all columns
  are \<^verbatim>\<open>int64\<close>, and \<^verbatim>\<open>float64\<close> otherwise, and then the entries of the \<^verbatim>\<open>int64\<close>
  columns are converted to float. The row is the list of its labelled entries.
\<close>

definition common_dtype :: "column list \<Rightarrow> dtype" where
  "common_dtype cols =
     (if list_ex (\<lambda>c. dtype_of c = Object) cols then Object
      else if list_all (\<lambda>c. dtype_of c = Int64) cols then Int64
      else Float64)"

fun upcast :: "dtype \<Rightarrow> pyval \<Rightarrow> pyval" where
  "upcast Float64 (Num n) = Num (NFloat (to_float n))"
| "upcast _ v = v"

definition iterrows_row :: "dataframe \<Rightarrow> nat \<Rightarrow> (string \<times> pyval) list" where
  "iterrows_row df i =
     map (\<lambda>(k, col). (k, upcast (common_dtype (map snd (columns df))) (col_at col i)))
         (columns df)"

text \<open>\<^verbatim>\<open>row[c]\<close> on a row Series.\<close>

definition row_getitem :: "(string \<times> pyval) list \<Rightarrow> string \<Rightarrow> exn + pyval" where
  "row_getitem row c = (case map_of row c of None \<Rightarrow> Inl (KeyError c) | Some v \<Rightarrow> Inr v)"

text \<open>
  \<^verbatim>\<open>float(v)\<close>. On a number it is the number as a float. On text Python parses the text
  and raises \<^verbatim>\<open>ValueError\<close> when it is not numeric; \<^verbatim>\<open>csv_to_geojson\<close> reads only the
  two coordinate columns this way, after it has overwritten both with numbers, so the
  model gives the text case the \<^verbatim>\<open>ValueError\<close> and never reaches it
  (lemma \<open>row_feature_numeric\<close> below).
\<close>

fun py_float :: "pyval \<Rightarrow> exn + float64" where
  "py_float (Num n) = Inr (to_float n)"
| "py_float (Str s) = Inl (ValueError (''could not convert string to float: '' @ s))"

text \<open>
  The properties of a row: the row without the two coordinate labels, each value
  stringified by \<open>str_of\<close> (Python's \<^verbatim>\<open>str\<close>), NaN kept as \<^verbatim>\<open>None\<close>.
\<close>

definition row_properties ::
  "(pyval \<Rightarrow> string) \<Rightarrow> string \<Rightarrow> string \<Rightarrow> (string \<times> pyval) list \<Rightarrow> (string \<times> json) list" where
  "row_properties str_of lat_col lon_col row =
     map (\<lambda>(k, v). (k, if notnull v then JStr (str_of v) else JNull))
         (filter (\<lambda>(k, v). k \<noteq> lat_col \<and> k \<noteq> lon_col) row)"

definition row_feature ::
  "(pyval \<Rightarrow> string) \<Rightarrow> string \<Rightarrow> string \<Rightarrow> (string \<times> pyval) list \<Rightarrow> exn + json" where
  "row_feature str_of lat_col lon_col row =
     ebind (row_getitem row lon_col) (\<lambda>xv.
       ebind (py_float xv) (\<lambda>x.
         ebind (row_getitem row lat_col) (\<lambda>yv.
           ebind (py_float yv) (\<lambda>y.
             Inr (JObj [(''type'', JStr ''Feature''),
                        (''geometry'', mapping (Point (x, y))),
                        (''properties'', JObj (row_properties str_of lat_col lon_col row))])))))"

text \<open>
  The loop over \<^verbatim>\<open>df.iterrows()\<close>. A \<^verbatim>\<open>ValueError\<close> or \<^verbatim>\<open>TypeError\<close> in the body
  skips the row; any other exception leaves the function.
\<close>

fun rows_loop ::
  "(pyval \<Rightarrow> string) \<Rightarrow> string \<Rightarrow> string \<Rightarrow> dataframe \<Rightarrow> nat list \<Rightarrow> json list \<Rightarrow> exn + json list" where
  "rows_loop str_of lat_col lon_col df [] features = Inr features"
| "rows_loop str_of lat_col lon_col df (idx # rest) features =
     (case row_feature str_of lat_col lon_col (iterrows_row df idx) of
        Inr feature \<Rightarrow> rows_loop str_of lat_col lon_col df rest (features @ [feature])
      | Inl (ValueError m) \<Rightarrow> rows_loop str_of lat_col lon_col df rest features
      | Inl (TypeError m) \<Rightarrow> rows_loop str_of lat_col lon_col df rest features
      | Inl e \<Rightarrow> Inl e)"

text \<open>
  \<^verbatim>\<open>csv_to_geojson\<close> assigns to \<^verbatim>\<open>df[lat_col]\<close> and \<^verbatim>\<open>df[lon_col]\<close>, which writes
  into the caller's data frame; \<^verbatim>\<open>df = df.dropna(...)\<close> then rebinds the local name to
  a new frame. The model returns the caller's data frame as the call leaves it, and the
  result: an exception, \<^verbatim>\<open>None\<close>, or the FeatureCollection.
\<close>

definition csv_to_geojson ::
  "(string \<Rightarrow> number option) \<Rightarrow> (pyval \<Rightarrow> string) \<Rightarrow> dataframe \<Rightarrow> string \<Rightarrow> string
     \<Rightarrow> dataframe \<times> (exn + json option)" where
  "csv_to_geojson parse str_of df lat_col lon_col =
     (case get_column df lat_col of
        Inl e \<Rightarrow> (df, Inl e)
      | Inr lat_cells \<Rightarrow>
          let df1 = set_column df lat_col (to_numeric parse (index df) lat_cells) in
          (case get_column df1 lon_col of
             Inl e \<Rightarrow> (df1, Inl e)
           | Inr lon_cells \<Rightarrow>
               let df2 = set_column df1 lon_col (to_numeric parse (index df1) lon_cells)
               in (df2,
                   ebind (dropna df2 [lat_col, lon_col]) (\<lambda>kept.
                     ebind (rows_loop str_of lat_col lon_col kept (index kept) [])
                       (\<lambda>features.
                          if features = [] then Inr None
                          else Inr (Some (JObj [(''type'', JStr ''FeatureCollection''),
                                                (''features'', JArr features)])))))))"

text \<open>
  The data frame with its two coordinate columns replaced by their numeric coercions:
  what the two column assignments leave in the caller's data frame when the column names
  are distinct.
\<close>

definition coerced_frame ::
  "(string \<Rightarrow> number option) \<Rightarrow> string \<Rightarrow> string \<Rightarrow> dataframe \<Rightarrow> dataframe" where
  "coerced_frame parse lat_col lon_col df =
     df\<lparr>columns :=
          map (\<lambda>(k, col). (k, if k = lat_col \<or> k = lon_col
                               then as_column (to_numeric parse (index df) col) else col))
              (columns df)\<rparr>"

text \<open>
  The words of the specification for the conversion. The coordinate of a row is the
  numeric coercion of its entry, as a float; a row survives when neither coordinate is
  NaN; the feature of a surviving row is the point (longitude, latitude) with the other
  columns as properties, a value stringified and NaN as null. \<open>column_value\<close> is the
  value the column holds in the row, which the specification stringifies; \<open>row_entry\<close>
  is the entry of the row that \<^verbatim>\<open>iterrows\<close> yields for the column in the coerced frame.
\<close>

definition coordinate ::
  "(string \<Rightarrow> number option) \<Rightarrow> dataframe \<Rightarrow> string \<Rightarrow> nat \<Rightarrow> float64" where
  "coordinate parse df c i =
     (case map_of (columns df) c of
        None \<Rightarrow> NaN
      | Some col \<Rightarrow> to_float (coerce parse (col_at col i)))"

definition survives ::
  "(string \<Rightarrow> number option) \<Rightarrow> dataframe \<Rightarrow> string \<Rightarrow> string \<Rightarrow> nat \<Rightarrow> bool" where
  "survives parse df lat_col lon_col i =
     (coordinate parse df lat_col i \<noteq> NaN \<and> coordinate parse df lon_col i \<noteq> NaN)"

definition column_value :: "column \<Rightarrow> nat \<Rightarrow> pyval" where
  "column_value col i = col_at col i"

definition row_entry ::
  "(string \<Rightarrow> number option) \<Rightarrow> dataframe \<Rightarrow> string \<Rightarrow> string \<Rightarrow> column \<Rightarrow> nat \<Rightarrow> pyval" where
  "row_entry parse df lat_col lon_col col i =
     upcast (common_dtype (map snd (columns (coerced_frame parse lat_col lon_col df))))
            (col_at col i)"

definition property_json :: "(pyval \<Rightarrow> string) \<Rightarrow> pyval \<Rightarrow> json" where
  "property_json str_of v = (case v of Num (NFloat NaN) \<Rightarrow> JNull | _ \<Rightarrow> JStr (str_of v))"

definition point_feature ::
  "(string \<Rightarrow> number option) \<Rightarrow> (column \<Rightarrow> nat \<Rightarrow> pyval) \<Rightarrow> (pyval \<Rightarrow> string)
     \<Rightarrow> dataframe \<Rightarrow> string \<Rightarrow> string \<Rightarrow> nat \<Rightarrow> json" where
  "point_feature parse value_of str_of df lat_col lon_col i =
     JObj [(''type'', JStr ''Feature''),
           (''geometry'',
              JObj [(''type'', JStr ''Point''),
                    (''coordinates'', JArr [JFloat (coordinate parse df lon_col i),
                                            JFloat (coordinate parse df lat_col i)])]),
           (''properties'',
              JObj (map (\<lambda>(k, col). (k, property_json str_of (value_of col i)))
                        (filter (\<lambda>(k, col). k \<notin> {lat_col, lon_col}) (columns df))))]"

definition conversion_result ::
  "(string \<Rightarrow> number option) \<Rightarrow> (column \<Rightarrow> nat \<Rightarrow> pyval) \<Rightarrow> (pyval \<Rightarrow> string)
     \<Rightarrow> dataframe \<Rightarrow> string \<Rightarrow> string \<Rightarrow> json option" where
  "conversion_result parse value_of str_of df lat_col lon_col =
     (case filter (survives parse df lat_col lon_col) (index df) of
        [] \<Rightarrow> None
      | kept \<Rightarrow>
          Some (JObj [(''type'', JStr ''FeatureCollection''),
                      (''features'',
                         JArr (map (point_feature parse value_of str_of df lat_col lon_col)
                                   kept))]))"

section \<open>process\_geometries and the export\<close>

text \<open>The list comprehension \<^verbatim>\<open>[shape(feature['geometry']) for feature in ...]\<close>.\<close>

fun shapes :: "(json \<Rightarrow> exn + geometry) \<Rightarrow> json list \<Rightarrow> exn + geometry list" where
  "shapes shape [] = Inr []"
| "shapes shape (feature # rest) =
     ebind (py_getitem feature ''geometry'') (\<lambda>g.
       ebind (shape g) (\<lambda>s.
         ebind (shapes shape rest) (\<lambda>ss. Inr (s # ss))))"

text \<open>
  \<^verbatim>\<open>process_geometries\<close> returns the combined geometry or \<^verbatim>\<open>None\<close>; every exception
  in its body is caught and becomes \<^verbatim>\<open>None\<close>. The messages it shows through the user
  interface are not part of the result and are left out.
\<close>

definition process_geometries ::
  "(json \<Rightarrow> exn + geometry) \<Rightarrow> (geometry list \<Rightarrow> exn + geometry) \<Rightarrow> json \<Rightarrow> geometry option" where
  "process_geometries shape unary_union geojson_data =
     (case
        (if \<not> truthy geojson_data then Inr None
         else ebind (py_in ''features'' geojson_data) (\<lambda>has.
           if \<not> has then Inr None
           else ebind (py_getitem geojson_data ''features'') (\<lambda>fs.
             ebind (py_iter fs) (\<lambda>features.
               ebind (shapes shape features) (\<lambda>geometries.
                 if geometries = [] then Inr None
                 else ebind (unary_union geometries) (\<lambda>combined.
                   if geom_type combined = ''Polygon''
                   then ebind (multi_polygon [combined]) (\<lambda>m. Inr (Some m))
                   else Inr (Some combined)))))))
      of
        Inl e \<Rightarrow> None
      | Inr r \<Rightarrow> r)"

text \<open>
  The export in \<^verbatim>\<open>main\<close>. \<^verbatim>\<open>if combined_geometry:\<close> holds for a geometry that is not
  empty; then the dict \<^verbatim>\<open>processed_geojson\<close> is built, shown on the map by
  \<^verbatim>\<open>display_map\<close>, and after that serialized for the download. \<^verbatim>\<open>display_map\<close> hands
  the dict to folium, which may write into it; what the call leaves in the dict is the
  parameter \<open>shown\<close>, a function of the current document and the dict.
\<close>

definition processed_geojson :: "geometry \<Rightarrow> json" where
  "processed_geojson combined_geometry =
     JObj [(''type'', JStr ''FeatureCollection''),
           (''features'',
              JArr [JObj [(''type'', JStr ''Feature''),
                          (''geometry'', mapping combined_geometry),
                          (''properties'', JObj [])]])]"

definition exported_geojson ::
  "(json \<Rightarrow> exn + geometry) \<Rightarrow> (geometry list \<Rightarrow> exn + geometry) \<Rightarrow> (json \<Rightarrow> json \<Rightarrow> json)
     \<Rightarrow> json \<Rightarrow> json option" where
  "exported_geojson shape unary_union shown current_geojson =
     (case process_geometries shape unary_union current_geojson of
        None \<Rightarrow> None
      | Some combined_geometry \<Rightarrow>
          if is_empty combined_geometry then None
          else Some (shown current_geojson (processed_geojson combined_geometry)))"

text \<open>
  A display that only adds members: the document it leaves has the type and the features
  of the document it was given, each feature with all the members it had, unchanged,
  and possibly more.
\<close>

definition keeps_members :: "(string \<times> json) list \<Rightarrow> (string \<times> json) list \<Rightarrow> bool" where
  "keeps_members kv kv' = list_all (\<lambda>(k, v). map_of kv' k = Some v) kv"

fun feature_kept :: "json \<Rightarrow> json \<Rightarrow> bool" where
  "feature_kept (JObj kv) (JObj kv') = keeps_members kv kv'"
| "feature_kept _ _ = False"

definition adds_members_only :: "json \<Rightarrow> json \<Rightarrow> bool" where
  "adds_members_only d d' =
     (case (d, d') of
        (JObj kv, JObj kv') \<Rightarrow>
          (case (map_of kv ''features'', map_of kv' ''features'') of
             (Some (JArr fs), Some (JArr fs')) \<Rightarrow>
               map_of kv' ''type'' = map_of kv ''type'' \<and> list_all2 feature_kept fs fs'
           | _ \<Rightarrow> False)
      | _ \<Rightarrow> False)"

section \<open>Instances of the library parameters\<close>

text \<open>
  The theorems below hold for every choice of the library parameters. To evaluate the
  functions on concrete inputs, the following instances are used. Each agrees with the
  library on the inputs it is applied to in this theory and makes no claim beyond them:
  \<open>str_text\<close> is \<^verbatim>\<open>str\<close> on text, \<^verbatim>\<open>None\<close> and booleans; \<open>str_sample\<close> is
  \<^verbatim>\<open>str\<close> on text, on ints and on floats whose value is a whole number below 10**16;
  \<open>parse_integer\<close> reads plain integer literals and nothing else;
  \<open>loads_collection\<close> parses one document; \<open>shape_polygon\<close> parses GeoJSON polygons;
  \<open>union_single\<close> gives the union of a list of one geometry as that geometry (shapely
  may start the ring of the same polygon at another vertex, and may give an empty result
  another type); \<open>shown_with_id\<close> is a display that gives every feature the id
  \<^verbatim>\<open>"0"\<close>, as folium does with a document of one feature without properties.
\<close>

fun str_text :: "json \<Rightarrow> string" where
  "str_text (JStr s) = s"
| "str_text JNull = ''None''"
| "str_text (JBool b) = (if b then ''True'' else ''False'')"
| "str_text _ = []"

definition digit_char :: "nat \<Rightarrow> char" where
  "digit_char n = ''0123456789'' ! n"

function show_nat :: "nat \<Rightarrow> string" where
  "show_nat n = (if n < 10 then [digit_char n] else show_nat (n div 10) @ [digit_char (n mod 10)])"
  by pat_completeness auto
termination
  by (relation "measure id") auto

declare show_nat.simps [simp del]

definition show_int :: "int \<Rightarrow> string" where
  "show_int k = (if k < 0 then ''-'' @ show_nat (nat (- k)) else show_nat (nat k))"

fun str_sample :: "pyval \<Rightarrow> string" where
  "str_sample (Str s) = s"
| "str_sample (Num (NInt k)) = show_int k"
| "str_sample (Num (NFloat NaN)) = ''nan''"
| "str_sample (Num (NFloat PosInf)) = ''inf''"
| "str_sample (Num (NFloat NegInf)) = ''-inf''"
| "str_sample (Num (NFloat (Fin r))) = show_int \<lfloor>r\<rfloor> @ ''.0''"

definition digit_value :: "char \<Rightarrow> nat option" where
  "digit_value = map_of (zip ''0123456789'' [0, 1, 2, 3, 4, 5, 6, 7, 8, 9])"

fun digits_value :: "string \<Rightarrow> nat \<Rightarrow> nat option" where
  "digits_value [] acc = Some acc"
| "digits_value (c # cs) acc =
     (case digit_value c of None \<Rightarrow> None | Some d \<Rightarrow> digits_value cs (10 * acc + d))"

definition parse_integer :: "string \<Rightarrow> number option" where
  "parse_integer s =
     (case s of
        [] \<Rightarrow> None
      | c # cs \<Rightarrow>
          if c = CHR ''-'' \<and> cs \<noteq> []
          then map_option (\<lambda>n. NInt (- int n)) (digits_value cs 0)
          else map_option (\<lambda>n. NInt (int n)) (digits_value s 0))"

definition collection_text :: string where
  "collection_text = ''{\"type\": \"FeatureCollection\", \"features\": [null]}''"

definition loads_collection :: "string \<Rightarrow> exn + json" where
  "loads_collection s =
     (if s = collection_text
      then Inr (JObj [(''type'', JStr ''FeatureCollection''), (''features'', JArr [JNull])])
      else Inl (JSONDecodeError ''Expecting value: line 1 column 1 (char 0)''))"

fun number_value :: "json \<Rightarrow> float64 option" where
  "number_value (JInt i) = Some (Fin (of_int i))"
| "number_value (JFloat x) = Some x"
| "number_value _ = None"

fun position_value :: "json \<Rightarrow> position option" where
  "position_value (JArr [a, b]) =
     (case (number_value a, number_value b) of (Some x, Some y) \<Rightarrow> Some (x, y) | _ \<Rightarrow> None)"
| "position_value _ = None"

fun all_some :: "'a option list \<Rightarrow> 'a list option" where
  "all_some [] = Some []"
| "all_some (None # _) = None"
| "all_some (Some x # xs) = map_option ((#) x) (all_some xs)"

fun ring_value :: "json \<Rightarrow> position list option" where
  "ring_value (JArr ps) = all_some (map position_value ps)"
| "ring_value _ = None"

definition shape_polygon :: "json \<Rightarrow> exn + geometry" where
  "shape_polygon g =
     (case g of
        JObj kv \<Rightarrow>
          (case (map_of kv ''type'', map_of kv ''coordinates'') of
             (Some (JStr t), Some (JArr rs)) \<Rightarrow>
               (if t = ''Polygon''
                then (case all_some (map ring_value rs) of
                        Some rings \<Rightarrow> Inr (Polygon rings)
                      | None \<Rightarrow> Inl (ValueError ''bad coordinates''))
                else Inl (ValueError (''Unknown geometry type: '' @ t)))
           | _ \<Rightarrow> Inl (ValueError ''bad geometry''))
      | _ \<Rightarrow> Inl (TypeError ''bad geometry''))"

fun union_single :: "geometry list \<Rightarrow> exn + geometry" where
  "union_single [g] = Inr g"
| "union_single _ = Inl (ValueError ''not a single geometry'')"

fun with_id :: "json \<Rightarrow> json" where
  "with_id (JObj kv) = JObj (kv @ [(''id'', JStr ''0'')])"
| "with_id v = v"

fun shown_with_id :: "json \<Rightarrow> json \<Rightarrow> json" where
  "shown_with_id current (JObj [(t, tv), (f, JArr fs)]) = JObj [(t, tv), (f, JArr (map with_id fs))]"
| "shown_with_id current d = d"

text \<open>
  Concrete inputs. The data frame of the CSV text with the lines \<^verbatim>\<open>lat,lon,name\<close>,
  \<^verbatim>\<open>abc,10,X\<close>, \<^verbatim>\<open>45,20,\<close> and \<^verbatim>\<open>-33,151,Sydney\<close>; the data frame of the CSV text
  \<^verbatim>\<open>lat,lon,id\<close>, \<^verbatim>\<open>45.5,10.5,1\<close>; and some documents.
\<close>

definition df_mixed :: dataframe where
  "df_mixed =
     \<lparr>index = [0, 1, 2],
      columns = [(''lat'', ObjCol ((!) [Str ''abc'', Str ''45'', Str ''-33''])),
                 (''lon'', IntCol ((!) [10, 20, 151])),
                 (''name'', ObjCol ((!) [Str ''X'', Num (NFloat NaN), Str ''Sydney'']))]\<rparr>"

definition df_numeric :: dataframe where
  "df_numeric =
     \<lparr>index = [0],
      columns = [(''lat'', FloatCol ((!) [Fin 45.5])),
                 (''lon'', FloatCol ((!) [Fin 10.5])),
                 (''id'', IntCol ((!) [1]))]\<rparr>"

definition feature_a :: "string \<Rightarrow> json" where
  "feature_a v =
     JObj [(''type'', JStr ''Feature''), (''geometry'', JNull),
           (''properties'', JObj [(''category'', JStr v)])]"

definition feature_bare :: json where
  "feature_bare = JObj [(''type'', JStr ''Feature''), (''geometry'', JNull)]"

definition collection_of :: "json list \<Rightarrow> json" where
  "collection_of fs = JObj [(''type'', JStr ''FeatureCollection''), (''features'', JArr fs)]"

definition feature_null :: json where
  "feature_null =
     JObj [(''type'', JStr ''Feature''), (''geometry'', JNull), (''properties'', JNull)]"

definition empty_polygon_feature :: json where
  "empty_polygon_feature =
     JObj [(''type'', JStr ''Feature''),
           (''geometry'', JObj [(''type'', JStr ''Polygon''), (''coordinates'', JArr [])]),
           (''properties'', JObj [])]"

definition square :: "position list list" where
  "square = [[(Fin 0, Fin 0), (Fin 1, Fin 0), (Fin 1, Fin 1), (Fin 0, Fin 1), (Fin 0, Fin 0)]]"

definition square_feature :: json where
  "square_feature =
     JObj [(''type'', JStr ''Feature''),
           (''geometry'',
              JObj [(''type'', JStr ''Polygon''),
                    (''coordinates'',
                       JArr [JArr [JArr [JInt 0, JInt 0], JArr [JInt 1, JInt 0],
                                   JArr [JInt 1, JInt 1], JArr [JInt 0, JInt 1],
                                   JArr [JInt 0, JInt 0]]])]),
           (''properties'', JObj [])]"

section \<open>Properties of validate\_geojson\<close>

lemma ebind_simps:
  "ebind (Inl e) f = Inl e" "ebind (Inr x) f = f x"
  by (simp_all add: ebind_def)

text \<open>
  Claim C8 says that every input that is not a mapping gets the message about missing
  required fields. The code hands such an input to \<^verbatim>\<open>json.loads\<close> first, so an array
  is answered with the text of the \<^verbatim>\<open>TypeError\<close> that \<^verbatim>\<open>json.loads\<close> raises.
\<close>

theorem validate_geojson_array_counterexample:
  "\<not> isinstance_dict (JArr []) \<and>
   validate_geojson loads_collection (JArr []) \<noteq>
     (False, ''Invalid GeoJSON structure: missing required fields'')"
  by (simp add: validate_geojson_def json_loads_def ebind_simps)

text \<open>
  Claim C8, amended: for every input that is neither a mapping nor text (an array, a
  number, a boolean, null), \<^verbatim>\<open>validate_geojson\<close> returns valid = False with the message
  ``Invalid GeoJSON: the JSON object must be str, bytes or bytearray, not T'', T the
  name of the input's type; and for every mapping that lacks \<^verbatim>\<open>type\<close> or
  \<^verbatim>\<open>features\<close> it returns valid = False with ``Invalid GeoJSON structure: missing
  required fields'', whatever else the mapping holds, so this check precedes the check of
  the type value and the check for a non-empty features entry.
\<close>

theorem validate_geojson_non_mapping:
  "(\<not> isinstance_dict x \<and> (\<forall>s. x \<noteq> JStr s) \<longrightarrow>
      validate_geojson loads x =
        (False, ''Invalid GeoJSON: the JSON object must be str, bytes or bytearray, not ''
                @ type_name x))
   \<and> (map_of kv ''type'' = None \<or> map_of kv ''features'' = None \<longrightarrow>
      validate_geojson loads (JObj kv) =
        (False, ''Invalid GeoJSON structure: missing required fields''))"
proof (intro conjI impI)
  assume "\<not> isinstance_dict x \<and> (\<forall>s. x \<noteq> JStr s)"
  then show "validate_geojson loads x =
        (False, ''Invalid GeoJSON: the JSON object must be str, bytes or bytearray, not ''
                @ type_name x)"
    by (cases x) (simp_all add: validate_geojson_def json_loads_def ebind_simps)
next
  assume "map_of kv ''type'' = None \<or> map_of kv ''features'' = None"
  then show "validate_geojson loads (JObj kv) =
        (False, ''Invalid GeoJSON structure: missing required fields'')"
    by (auto simp: validate_geojson_def validate_geojson_checks_def has_required_fields_def
        ebind_simps)
qed

theorem validate_geojson_non_mapping_witness:
  "validate_geojson loads_collection (JInt 5) =
     (False, ''Invalid GeoJSON: the JSON object must be str, bytes or bytearray, not int'')
   \<and> validate_geojson loads_collection (JObj [(''type'', JStr ''Feature'')]) =
     (False, ''Invalid GeoJSON structure: missing required fields'')"
  using validate_geojson_non_mapping [of "JInt 5" loads_collection "[(''type'', JStr ''Feature'')]"]
  by simp

text \<open>
  Claim C10: \<^verbatim>\<open>validate_geojson\<close> accepts serialized JSON text. For every text whose
  parse is a mapping with \<^verbatim>\<open>type\<close> equal to ``FeatureCollection'' and a non-empty
  \<^verbatim>\<open>features\<close> entry it returns (True, ``Valid GeoJSON''); for a text that fails to
  parse it returns valid = False with a message made from the parser's error, and raises
  nothing.
\<close>

theorem validate_geojson_text:
  "(loads s = Inr (JObj kv) \<and> map_of kv ''type'' = Some (JStr ''FeatureCollection'')
      \<and> map_of kv ''features'' = Some fs \<and> truthy fs \<longrightarrow>
      validate_geojson loads (JStr s) = (True, ''Valid GeoJSON''))
   \<and> (loads s = Inl e \<longrightarrow>
      validate_geojson loads (JStr s) = (False, ''Invalid GeoJSON: '' @ exn_str e))"
  by (simp add: validate_geojson_def validate_geojson_checks_def has_required_fields_def
        json_loads_def ebind_simps)

theorem validate_geojson_text_witness:
  "validate_geojson loads_collection (JStr collection_text) = (True, ''Valid GeoJSON'')
   \<and> validate_geojson loads_collection (JStr ''not json'') =
       (False, ''Invalid GeoJSON: Expecting value: line 1 column 1 (char 0)'')"
  using validate_geojson_text [of loads_collection collection_text
      "[(''type'', JStr ''FeatureCollection''), (''features'', JArr [JNull])]" "JArr [JNull]"
      "JSONDecodeError ''Expecting value: line 1 column 1 (char 0)''"]
    validate_geojson_text [of loads_collection "''not json''"
      "[]" "JNull"
      "JSONDecodeError ''Expecting value: line 1 column 1 (char 0)''"]
  by (simp add: loads_collection_def collection_text_def)

section \<open>Properties of filter\_geojson and get\_property\_values\<close>

lemma feature_properties_getitem:
  "feature_properties f = Some props \<Longrightarrow> py_getitem f ''properties'' = Inr (JObj props)"
  by (auto simp: feature_properties_def split: json.splits option.splits)

lemma feature_list_getitem:
  "feature_list d = Some fs \<Longrightarrow> py_getitem d ''features'' = Inr (JArr fs)"
  by (auto simp: feature_list_def split: json.splits option.splits)

lemma feature_list_collection [simp]:
  "feature_list (JObj [(''type'', t), (''features'', JArr fs)]) = Some fs"
  by (simp add: feature_list_def)

text \<open>On a feature with a properties mapping the inner loop computes the specification's test.\<close>

lemma include_feature_passes:
  "feature_properties f = Some props \<Longrightarrow>
     include_feature str_of f flt = Inr (passes_all str_of flt f)"
proof (induction flt)
  case Nil
  then show ?case by (simp add: passes_all_def)
next
  case (Cons c flt)
  obtain k vs where c: "c = (k, vs)" by (cases c)
  from Cons show ?case
    by (cases "map_of props k")
       (simp_all add: c passes_all_def passes_constraint_def feature_properties_getitem
          ebind_simps)
qed

text \<open>Whatever the features are: when the outer loop ends normally, it has kept, in order,
  the features for which the inner loop ended with the flag set.\<close>

lemma filter_loop_kept:
  "filter_loop str_of flt fs acc = Inr out \<Longrightarrow>
     out = acc @ filter (\<lambda>f. include_feature str_of f flt = Inr True) fs"
proof (induction fs arbitrary: acc)
  case Nil
  then show ?case by simp
next
  case (Cons f fs)
  show ?case
  proof (cases "include_feature str_of f flt")
    case (Inl e)
    with Cons.prems show ?thesis by (simp add: ebind_simps)
  next
    case (Inr b)
    with Cons.prems have "filter_loop str_of flt fs (if b then acc @ [f] else acc) = Inr out"
      by (simp add: ebind_simps)
    from Cons.IH [OF this] Inr show ?thesis by (cases b) simp_all
  qed
qed

lemma filter_loop_total:
  "list_all (\<lambda>f. feature_properties f \<noteq> None) fs \<Longrightarrow>
     filter_loop str_of flt fs acc = Inr (acc @ filter (passes_all str_of flt) fs)"
proof (induction fs arbitrary: acc)
  case Nil
  then show ?case by simp
next
  case (Cons f fs)
  then obtain props where "feature_properties f = Some props" by auto
  with Cons show ?case
    by (simp add: include_feature_passes ebind_simps)
qed

text \<open>
  Claim C2: for every FeatureCollection (each feature carrying a properties mapping) and
  every FilterSpec, \<^verbatim>\<open>filter_geojson\<close> returns a FeatureCollection whose features are
  exactly the input features, in input order, that pass every constraint; a feature passes
  a constraint when the value-set is empty or the feature has the property and its
  stringified value is in the value-set, and fails it when the property is missing. With
  an empty FilterSpec the input is returned as it is.
\<close>

theorem filter_geojson_retains_passing:
  assumes "is_feature_collection d" and "feature_list d = Some fs"
  shows "(\<exists>r. filter_geojson str_of d flt = Inr r
              \<and> is_feature_collection r
              \<and> feature_list r = Some (filter (passes_all str_of flt) fs))
         \<and> filter_geojson str_of d [] = Inr d
         \<and> (flt \<noteq> [] \<longrightarrow> filter_geojson str_of d flt =
               Inr (JObj [(''type'', JStr ''FeatureCollection''),
                          (''features'', JArr (filter (passes_all str_of flt) fs))]))"
proof (cases "flt = []")
  case True
  with assms show ?thesis
    by (simp add: filter_geojson_def passes_all_def)
next
  case False
  from assms have wf: "list_all (\<lambda>f. feature_properties f \<noteq> None) fs"
    by (simp add: is_feature_collection_def)
  then have "list_all (\<lambda>f. feature_properties f \<noteq> None) (filter (passes_all str_of flt) fs)"
    by (simp add: list_all_iff)
  with False assms wf show ?thesis
    by (simp add: filter_geojson_def feature_list_getitem filter_loop_total ebind_simps
        is_feature_collection_def)
qed

theorem filter_geojson_retains_passing_witness:
  "(\<exists>r. filter_geojson str_text (collection_of [feature_a ''A'', feature_a ''B'', feature_a ''C''])
            [(''category'', [''A'', ''B''])] = Inr r
        \<and> is_feature_collection r
        \<and> feature_list r = Some [feature_a ''A'', feature_a ''B''])
   \<and> filter_geojson str_text (collection_of [feature_a ''A'', feature_a ''B'', feature_a ''C'']) []
       = Inr (collection_of [feature_a ''A'', feature_a ''B'', feature_a ''C''])
   \<and> filter_geojson str_text (collection_of [feature_a ''A'', feature_a ''B'', feature_a ''C''])
            [(''category'', [''A'', ''B''])] = Inr (collection_of [feature_a ''A'', feature_a ''B''])"
  using filter_geojson_retains_passing
    [of "collection_of [feature_a ''A'', feature_a ''B'', feature_a ''C'']"
        "[feature_a ''A'', feature_a ''B'', feature_a ''C'']" str_text
        "[(''category'', [''A'', ''B''])]"]
  by (simp add: collection_of_def feature_a_def is_feature_collection_def
      feature_properties_def passes_all_def passes_constraint_def)

lemma gpv_step_value:
  "properties_absent_or_mapping f \<Longrightarrow>
     gpv_step str_of p f vals =
       Inr (case property_value str_of p f of None \<Rightarrow> vals | Some s \<Rightarrow> insert s vals)"
  by (auto simp: properties_absent_or_mapping_def gpv_step_def property_value_def
      feature_properties_def ebind_simps split: json.splits option.splits)

lemma gpv_loop_values:
  "list_all properties_absent_or_mapping fs \<Longrightarrow>
     gpv_loop str_of p fs vals = Inr (vals \<union> property_strings str_of p fs)"
proof (induction fs arbitrary: vals)
  case Nil
  then show ?case by (simp add: property_strings_def)
next
  case (Cons f fs)
  then show ?case
    by (cases "property_value str_of p f")
       (simp_all add: gpv_step_value ebind_simps property_strings_def)
qed

text \<open>
  Claim C9 says that \<^verbatim>\<open>get_property_values\<close> returns the sorted values for every
  document with a features list. A feature whose \<^verbatim>\<open>properties\<close> member is null, which
  GeoJSON allows and \<^verbatim>\<open>validate_geojson\<close> accepts, passes the test
  \<^verbatim>\<open>'properties' in feature\<close>; then \<^verbatim>\<open>property_name in None\<close> raises
  \<^verbatim>\<open>TypeError\<close>, and the function returns nothing.
\<close>

theorem get_property_values_null_properties_counterexample:
  "feature_list (collection_of [feature_null]) = Some [feature_null]
   \<and> validate_geojson loads_collection (collection_of [feature_null]) = (True, ''Valid GeoJSON'')
   \<and> get_property_values str_text (collection_of [feature_null]) ''category'' =
       Inl (TypeError (''argument of type '' @ [CHR 0x27] @ ''NoneType'' @ [CHR 0x27]
                       @ '' is not iterable''))"
  by (simp add: collection_of_def feature_null_def get_property_values_def gpv_step_def
      ebind_simps validate_geojson_def validate_geojson_checks_def has_required_fields_def)

text \<open>
  Claim C9, amended: for every document with a features list in which each feature is a
  mapping whose \<^verbatim>\<open>properties\<close> member is absent or a mapping, and every property name,
  \<^verbatim>\<open>get_property_values\<close> returns the stringified values of that property across the
  features whose properties contain it, in ascending string order and without
  duplicates; a feature without the property, or without properties, contributes
  nothing.
\<close>

theorem get_property_values_sorted_distinct:
  assumes "feature_list d = Some fs" and "list_all properties_absent_or_mapping fs"
  shows "\<exists>vs. get_property_values str_of d p = Inr vs
            \<and> sorted vs \<and> distinct vs \<and> set vs = property_strings str_of p fs"
proof -
  have fin: "finite (property_strings str_of p fs)"
    by (simp add: property_strings_def)
  from assms have "get_property_values str_of d p =
      Inr (sorted_list_of_set (property_strings str_of p fs))"
    by (simp add: get_property_values_def feature_list_getitem gpv_loop_values ebind_simps)
  with fin show ?thesis by simp
qed

theorem get_property_values_sorted_distinct_witness:
  "\<exists>vs. get_property_values str_text
          (collection_of [feature_a ''B'', feature_bare, feature_a ''A'', feature_a ''B''])
          ''category'' = Inr vs
      \<and> sorted vs \<and> distinct vs \<and> set vs = {''A'', ''B''}"
  using get_property_values_sorted_distinct
    [of "collection_of [feature_a ''B'', feature_bare, feature_a ''A'', feature_a ''B'']"
        "[feature_a ''B'', feature_bare, feature_a ''A'', feature_a ''B'']" str_text
        "''category''"]
  by (simp add: collection_of_def feature_a_def feature_bare_def properties_absent_or_mapping_def
      property_strings_def property_value_def feature_properties_def List.map_filter_simps
      insert_commute)

lemma include_feature_bare:
  "map_of kv ''properties'' = None \<Longrightarrow> list_ex (\<lambda>c. snd c \<noteq> []) flt \<Longrightarrow>
     include_feature str_of (JObj kv) flt = Inl (KeyError ''properties'')"
proof (induction flt)
  case Nil
  then show ?case by simp
next
  case (Cons c flt)
  obtain k vs where c: "c = (k, vs)" by (cases c)
  from Cons show ?case by (cases "vs = []") (simp_all add: c ebind_simps)
qed

lemma filter_loop_raises:
  assumes "list_all (\<lambda>g. feature_properties g \<noteq> None) pre"
    and "include_feature str_of f flt = Inl e"
  shows "filter_loop str_of flt (pre @ f # post) acc = Inl e"
  using assms
proof (induction pre arbitrary: acc)
  case Nil
  then show ?case by (simp add: ebind_simps)
next
  case (Cons g pre)
  then obtain props where "feature_properties g = Some props" by auto
  with Cons show ?case by (simp add: include_feature_passes ebind_simps)
qed

text \<open>
  Claim C4 says that \<^verbatim>\<open>filter_geojson\<close> returns a result, and raises nothing, also on
  a collection with a feature that has no properties mapping. What the code does there:
  as soon as the loop reaches a feature without a \<^verbatim>\<open>properties\<close> key, and some filter
  has a non-empty value list, \<^verbatim>\<open>feature['properties']\<close> raises \<^verbatim>\<open>KeyError\<close>, and
  nothing in \<^verbatim>\<open>filter_geojson\<close> catches it.
\<close>

theorem filter_geojson_raises_without_properties:
  assumes "feature_list d = Some (pre @ JObj kv # post)"
    and "list_all (\<lambda>g. feature_properties g \<noteq> None) pre"
    and "map_of kv ''properties'' = None"
    and "list_ex (\<lambda>c. snd c \<noteq> []) flt"
  shows "filter_geojson str_of d flt = Inl (KeyError ''properties'')"
proof -
  from assms(4) have "flt \<noteq> []" by auto
  moreover have "filter_loop str_of flt (pre @ JObj kv # post) [] = Inl (KeyError ''properties'')"
    using assms by (intro filter_loop_raises include_feature_bare)
  ultimately show ?thesis
    using assms(1) by (simp add: filter_geojson_def feature_list_getitem ebind_simps)
qed

text \<open>
  The same document at \<^verbatim>\<open>get_property_values\<close>, which tests
  \<^verbatim>\<open>'properties' in feature\<close> first, gives a result.
\<close>

theorem filter_geojson_raises_without_properties_witness:
  "filter_geojson str_text (collection_of [feature_a ''A'', feature_bare]) [(''category'', [''A''])]
     = Inl (KeyError ''properties'')
   \<and> get_property_values str_text (collection_of [feature_a ''A'', feature_bare]) ''category''
     = Inr [''A'']"
proof -
  have "filter_geojson str_text (collection_of [feature_a ''A'', feature_bare])
          [(''category'', [''A''])] = Inl (KeyError ''properties'')"
    using filter_geojson_raises_without_properties
      [of "collection_of [feature_a ''A'', feature_bare]" "[feature_a ''A'']"
          "[(''type'', JStr ''Feature''), (''geometry'', JNull)]" "[]"
          "[(''category'', [''A''])]" str_text]
    by (simp add: collection_of_def feature_a_def feature_bare_def feature_properties_def)
  moreover have "get_property_values str_text (collection_of [feature_a ''A'', feature_bare])
     ''category'' = Inr [''A'']"
    by (simp add: get_property_values_def collection_of_def feature_a_def feature_bare_def
        gpv_step_def ebind_simps)
  ultimately show ?thesis by simp
qed

section \<open>Properties of the CSV functions\<close>

lemma to_numeric_idem:
  "to_numeric parse idx (as_column (to_numeric parse idx' col)) = to_numeric parse idx' col"
  by (cases col) (simp_all add: to_numeric_def)

lemma series_at_to_numeric:
  "i \<in> set idx \<Longrightarrow>
     series_at (to_numeric parse idx col) i = to_float (coerce parse (col_at col i))"
proof (cases col)
  case (ObjCol f)
  assume i: "i \<in> set idx"
  show ?thesis
  proof (cases "list_all (\<lambda>i. is_int (coerce parse (f i))) idx")
    case True
    with i have "is_int (coerce parse (f i))" by (simp add: list_all_iff)
    then obtain k where "coerce parse (f i) = NInt k" by (cases "coerce parse (f i)") auto
    with True ObjCol show ?thesis by (simp add: to_numeric_def)
  next
    case False
    with ObjCol show ?thesis by (simp add: to_numeric_def)
  qed
qed (simp_all add: to_numeric_def)

lemma col_at_series:
  "\<exists>n. col_at (as_column s) i = Num n \<and> to_float n = series_at s i"
  by (cases s) simp_all

lemma notnull_series: "notnull (col_at (as_column s) i) = (series_at s i \<noteq> NaN)"
  by (cases s) simp_all

lemma to_float_upcast:
  "py_float (upcast d (Num n)) = Inr (to_float n)"
  by (cases d) simp_all

lemma map_of_map_snd:
  "map_of (map (\<lambda>(k, v). (k, f k v)) al) k = map_option (f k) (map_of al k)"
  by (induction al) auto

lemma in_names_map_of: "c \<in> set (map fst al) \<Longrightarrow> \<exists>v. map_of al c = Some v"
  by (induction al) auto

lemma get_column_some:
  "map_of (columns df) c = Some col \<Longrightarrow> get_column df c = Inr col"
  by (simp add: get_column_def)

text \<open>The caller's data frame after the two column assignments, also when both names are
  the same column.\<close>

lemma csv_to_geojson_fst:
  assumes "map_of (columns df) lat_col = Some latc" and "map_of (columns df) lon_col = Some lonc"
  shows "fst (csv_to_geojson parse str_of df lat_col lon_col) =
           df\<lparr>columns := AList.update lon_col (as_column (to_numeric parse (index df) lonc))
                (AList.update lat_col (as_column (to_numeric parse (index df) latc)) (columns df))\<rparr>"
proof (cases "lon_col = lat_col")
  case True
  with assms have "lonc = latc" by simp
  with True assms show ?thesis
    by (simp add: csv_to_geojson_def get_column_def set_column_def Let_def update_conv'
        to_numeric_idem)
next
  case False
  with assms show ?thesis
    by (simp add: csv_to_geojson_def get_column_def set_column_def Let_def update_conv')
qed

lemma update_distinct:
  "distinct (map fst al) \<Longrightarrow> map_of al k = Some v \<Longrightarrow>
     AList.update k v' al = map (\<lambda>(k', x). (k', if k' = k then v' else x)) al"
proof (induction al)
  case Nil
  then show ?case by simp
next
  case (Cons p al)
  obtain k0 x0 where p: "p = (k0, x0)" by (cases p)
  show ?case
  proof (cases "k0 = k")
    case True
    with Cons.prems p have "k \<notin> fst ` set al" by auto
    then have "map (\<lambda>(k', x). (k', if k' = k then v' else x)) al = al"
      by (induction al) auto
    with True p show ?thesis by simp
  next
    case False
    with Cons p show ?thesis by simp
  qed
qed

lemma csv_to_geojson_columns:
  assumes d: "distinct (map fst (columns df))"
    and m: "map_of (columns df) lat_col = Some latc" "map_of (columns df) lon_col = Some lonc"
  shows "fst (csv_to_geojson parse str_of df lat_col lon_col) = coerced_frame parse lat_col lon_col df"
proof -
  let ?A = "as_column (to_numeric parse (index df) latc)"
  let ?B = "as_column (to_numeric parse (index df) lonc)"
  let ?c1 = "map (\<lambda>(k', x). (k', if k' = lat_col then ?A else x)) (columns df)"
  have u1: "AList.update lat_col ?A (columns df) = ?c1"
    using d m(1) by (rule update_distinct)
  have d1: "distinct (map fst ?c1)"
    using d by (simp add: comp_def case_prod_unfold)
  have "\<exists>v. map_of ?c1 lon_col = Some v"
    using m by (cases "lon_col = lat_col")
      (simp_all add: map_of_map_snd [of "\<lambda>k' x. if k' = lat_col then ?A else x"])
  then obtain v where m1: "map_of ?c1 lon_col = Some v" by blast
  have u2: "AList.update lon_col ?B ?c1 = map (\<lambda>(k', x). (k', if k' = lon_col then ?B else x)) ?c1"
    using d1 m1 by (rule update_distinct)
  have "map (\<lambda>(k', x). (k', if k' = lon_col then ?B else x)) ?c1 =
        map (\<lambda>(k, col). (k, if k = lat_col \<or> k = lon_col
                               then as_column (to_numeric parse (index df) col) else col))
              (columns df)"
  proof -
    have "(case (case p of (k', x) \<Rightarrow> (k', if k' = lat_col then ?A else x)) of
             (k', x) \<Rightarrow> (k', if k' = lon_col then ?B else x)) =
          (case p of (k, col) \<Rightarrow> (k, if k = lat_col \<or> k = lon_col
                               then as_column (to_numeric parse (index df) col) else col))"
      if "p \<in> set (columns df)" for p
    proof -
      obtain k col where p: "p = (k, col)" by (cases p)
      from m have "(lat_col, latc) \<in> set (columns df)" "(lon_col, lonc) \<in> set (columns df)"
        by (auto dest: map_of_SomeD)
      with d that p have "k = lat_col \<Longrightarrow> col = latc" "k = lon_col \<Longrightarrow> col = lonc"
        by (auto dest: eq_key_imp_eq_value)
      with p show ?thesis by auto
    qed
    then show ?thesis by simp
  qed
  with u1 u2 show ?thesis
    by (simp add: csv_to_geojson_fst [OF m] coerced_frame_def)
qed

lemma property_json_notnull:
  "(if notnull v then JStr (str_of v) else JNull) = property_json str_of v"
  by (cases v rule: notnull.cases) (auto simp: property_json_def split: float64.splits)

lemma coerced_frame_simps:
  "index (coerced_frame parse lat_col lon_col df) = index df"
  "map fst (columns (coerced_frame parse lat_col lon_col df)) = map fst (columns df)"
  "map_of (columns (coerced_frame parse lat_col lon_col df)) k =
     map_option (\<lambda>col. if k = lat_col \<or> k = lon_col
                        then as_column (to_numeric parse (index df) col) else col)
       (map_of (columns df) k)"
  by (simp_all add: coerced_frame_def comp_def case_prod_unfold
      map_of_map_snd [of "\<lambda>k col. if k = lat_col \<or> k = lon_col
                        then as_column (to_numeric parse (index df) col) else col",
                      unfolded case_prod_unfold])

lemma cell_notnull_coerced:
  assumes "i \<in> set (index df)" and "c = lat_col \<or> c = lon_col"
  shows "cell_notnull (coerced_frame parse lat_col lon_col df) i c = (coordinate parse df c i \<noteq> NaN)"
  using assms
  by (cases "map_of (columns df) c")
     (auto simp: cell_notnull_def coordinate_def coerced_frame_simps notnull_series
        series_at_to_numeric)

lemma dropna_coerced:
  assumes "lat_col \<in> set (map fst (columns df))" and "lon_col \<in> set (map fst (columns df))"
  shows "dropna (coerced_frame parse lat_col lon_col df) [lat_col, lon_col] =
           Inr ((coerced_frame parse lat_col lon_col df)
                  \<lparr>index := filter (survives parse df lat_col lon_col) (index df)\<rparr>)"
proof -
  have "filter (\<lambda>i. list_all (cell_notnull (coerced_frame parse lat_col lon_col df) i)
                       [lat_col, lon_col]) (index df)
        = filter (survives parse df lat_col lon_col) (index df)"
    by (rule filter_cong) (simp_all add: cell_notnull_coerced survives_def)
  with assms show ?thesis
    by (simp add: dropna_def coerced_frame_simps)
qed

lemma row_properties_coerced:
  "row_properties str_of lat_col lon_col
     (map (\<lambda>(k, col). (k, upcast D (col_at col i)))
        (map (\<lambda>(k, col). (k, if k = lat_col \<or> k = lon_col then G col else col)) cols))
   = map (\<lambda>(k, col). (k, property_json str_of (upcast D (col_at col i))))
       (filter (\<lambda>(k, col). k \<notin> {lat_col, lon_col}) cols)"
  by (induction cols) (auto simp: row_properties_def property_json_notnull)

lemma row_getitem_coerced:
  assumes "i \<in> set (index df)" and "c = lat_col \<or> c = lon_col"
    and "c \<in> set (map fst (columns df))"
  shows "ebind (row_getitem (iterrows_row
            ((coerced_frame parse lat_col lon_col df)\<lparr>index := idx\<rparr>) i) c) py_float
         = Inr (coordinate parse df c i)"
proof -
  from assms(3) obtain col where col: "map_of (columns df) c = Some col"
    using in_names_map_of by metis
  let ?s = "to_numeric parse (index df) col"
  let ?D = "common_dtype (map snd (columns (coerced_frame parse lat_col lon_col df)))"
  obtain n where n: "col_at (as_column ?s) i = Num n" "to_float n = series_at ?s i"
    using col_at_series by blast
  have "map_of (iterrows_row ((coerced_frame parse lat_col lon_col df)\<lparr>index := idx\<rparr>) i) c
        = Some (upcast ?D (col_at (as_column ?s) i))"
    using col assms(2)
    by (simp add: iterrows_row_def case_prod_unfold coerced_frame_simps
        map_of_map_snd [of "\<lambda>k col. upcast ?D (col_at col i)", unfolded case_prod_unfold])
  with n assms(1) col show ?thesis
    by (simp add: row_getitem_def ebind_simps to_float_upcast coordinate_def series_at_to_numeric)
qed

text \<open>On a row of the coerced frame \<^verbatim>\<open>float\<close> never raises: the loop body yields the
  feature of the specification, and no row is skipped.\<close>

lemma row_feature_numeric:
  assumes "i \<in> set (index df)"
    and "lat_col \<in> set (map fst (columns df))" and "lon_col \<in> set (map fst (columns df))"
  shows "row_feature str_of lat_col lon_col
           (iterrows_row ((coerced_frame parse lat_col lon_col df)\<lparr>index := idx\<rparr>) i)
         = Inr (point_feature parse (row_entry parse df lat_col lon_col) str_of df lat_col lon_col i)"
proof -
  let ?row = "iterrows_row ((coerced_frame parse lat_col lon_col df)\<lparr>index := idx\<rparr>) i"
  have x: "ebind (row_getitem ?row lon_col) py_float = Inr (coordinate parse df lon_col i)"
    using assms by (intro row_getitem_coerced) simp_all
  have y: "ebind (row_getitem ?row lat_col) py_float = Inr (coordinate parse df lat_col i)"
    using assms by (intro row_getitem_coerced) simp_all
  have p: "row_properties str_of lat_col lon_col ?row =
      map (\<lambda>(k, col). (k, property_json str_of (row_entry parse df lat_col lon_col col i)))
        (filter (\<lambda>(k, col). k \<notin> {lat_col, lon_col}) (columns df))"
  proof -
    have c2: "columns ((coerced_frame parse lat_col lon_col df)\<lparr>index := idx\<rparr>)
                = columns (coerced_frame parse lat_col lon_col df)"
      by simp
    have c1: "columns (coerced_frame parse lat_col lon_col df) =
        map (\<lambda>(k, col). (k, if k = lat_col \<or> k = lon_col
                               then as_column (to_numeric parse (index df) col) else col))
            (columns df)"
      by (simp add: coerced_frame_def)
    show ?thesis
      by (simp only: iterrows_row_def row_entry_def c2 c1 row_properties_coerced)
  qed
  from x obtain xv where xv: "row_getitem ?row lon_col = Inr xv"
      "py_float xv = Inr (coordinate parse df lon_col i)"
    by (cases "row_getitem ?row lon_col") (simp_all add: ebind_simps)
  from y obtain yv where yv: "row_getitem ?row lat_col = Inr yv"
      "py_float yv = Inr (coordinate parse df lat_col i)"
    by (cases "row_getitem ?row lat_col") (simp_all add: ebind_simps)
  show ?thesis
    by (simp add: row_feature_def xv yv p ebind_simps point_feature_def position_json_def)
qed

lemma rows_loop_numeric:
  assumes "set is \<subseteq> set (index df)"
    and "lat_col \<in> set (map fst (columns df))" and "lon_col \<in> set (map fst (columns df))"
  shows "rows_loop str_of lat_col lon_col
           ((coerced_frame parse lat_col lon_col df)\<lparr>index := idx\<rparr>) is acc
         = Inr (acc @ map (point_feature parse (row_entry parse df lat_col lon_col) str_of df
                             lat_col lon_col) is)"
  using assms(1)
proof (induction "is" arbitrary: acc)
  case Nil
  then show ?case by simp
next
  case (Cons i "is")
  then have "i \<in> set (index df)" by simp
  from row_feature_numeric [OF this assms(2,3)] Cons show ?case by simp
qed

lemma csv_to_geojson_snd:
  assumes "distinct (map fst (columns df))"
    and "lat_col \<in> set (map fst (columns df))" and "lon_col \<in> set (map fst (columns df))"
  shows "snd (csv_to_geojson parse str_of df lat_col lon_col) =
           Inr (conversion_result parse (row_entry parse df lat_col lon_col) str_of df
                  lat_col lon_col)"
proof -
  from assms(2,3) obtain latc lonc where m: "map_of (columns df) lat_col = Some latc"
    "map_of (columns df) lon_col = Some lonc"
    using in_names_map_of by metis
  let ?cf = "coerced_frame parse lat_col lon_col df"
  let ?kept = "filter (survives parse df lat_col lon_col) (index df)"
  have "fst (csv_to_geojson parse str_of df lat_col lon_col) = ?cf"
    using assms(1) m by (rule csv_to_geojson_columns)
  moreover have "snd (csv_to_geojson parse str_of df lat_col lon_col) =
      ebind (dropna (fst (csv_to_geojson parse str_of df lat_col lon_col)) [lat_col, lon_col])
        (\<lambda>kept. ebind (rows_loop str_of lat_col lon_col kept (index kept) [])
           (\<lambda>features. if features = [] then Inr None
                        else Inr (Some (JObj [(''type'', JStr ''FeatureCollection''),
                                              (''features'', JArr features)]))))"
    using m
    by (cases "lon_col = lat_col")
       (simp_all add: csv_to_geojson_def get_column_def set_column_def Let_def update_conv')
  ultimately have "snd (csv_to_geojson parse str_of df lat_col lon_col) =
      ebind (rows_loop str_of lat_col lon_col (?cf\<lparr>index := ?kept\<rparr>) ?kept [])
           (\<lambda>features. if features = [] then Inr None
                        else Inr (Some (JObj [(''type'', JStr ''FeatureCollection''),
                                              (''features'', JArr features)])))"
    using assms(2,3) by (simp add: dropna_coerced ebind_simps)
  also have "rows_loop str_of lat_col lon_col (?cf\<lparr>index := ?kept\<rparr>) ?kept [] =
      Inr ([] @ map (point_feature parse (row_entry parse df lat_col lon_col) str_of df
                             lat_col lon_col) ?kept)"
    using assms(2,3) by (intro rows_loop_numeric) auto
  finally show ?thesis
    by (cases ?kept) (simp_all add: ebind_simps conversion_result_def)
qed

text \<open>The entry of a row is the column's own value, unless the column is \<^verbatim>\<open>int64\<close> and
  the rows of the coerced frame are \<^verbatim>\<open>float64\<close>.\<close>

lemma row_entry_column_value:
  assumes "(k, col) \<in> set (columns df)" and "k \<notin> {lat_col, lon_col}"
    and "dtype_of col \<noteq> Int64
         \<or> common_dtype (map snd (columns (coerced_frame parse lat_col lon_col df))) \<noteq> Float64"
  shows "row_entry parse df lat_col lon_col col i = column_value col i"
proof (cases col)
  case (IntCol f)
  with assms(3) show ?thesis
    by (cases "common_dtype (map snd (columns (coerced_frame parse lat_col lon_col df)))")
       (simp_all add: row_entry_def column_value_def)
next
  case (FloatCol f)
  then show ?thesis
    by (cases "common_dtype (map snd (columns (coerced_frame parse lat_col lon_col df)))")
       (simp_all add: row_entry_def column_value_def)
next
  case (ObjCol f)
  with assms(1,2) have "ObjCol f \<in> set (map snd (columns (coerced_frame parse lat_col lon_col df)))"
    by (force simp: coerced_frame_def)
  then have "common_dtype (map snd (columns (coerced_frame parse lat_col lon_col df))) = Object"
    unfolding common_dtype_def list_ex_iff by force
  with ObjCol show ?thesis by (simp add: row_entry_def column_value_def)
qed

lemma show_nat_digit: "n < 10 \<Longrightarrow> show_nat n = [digit_char n]"
  by (simp add: show_nat.simps)

lemma show_int_one: "show_int 1 = ''1''"
  by (simp add: show_int_def show_nat_digit digit_char_def)

lemma str_sample_one:
  "str_sample (Num (NInt 1)) = ''1''" "str_sample (Num (NFloat (Fin 1))) = ''1.0''"
  by (simp_all add: show_int_def show_nat_digit digit_char_def)

lemma parse_integer_samples:
  "parse_integer ''abc'' = None" "parse_integer ''45'' = Some (NInt 45)"
  "parse_integer ''-33'' = Some (NInt (- 33))"
  by (simp_all add: parse_integer_def digit_value_def)

lemma df_mixed_coordinates:
  "map (coordinate parse_integer df_mixed ''lat'') (index df_mixed) = [NaN, Fin 45, Fin (- 33)]"
  "map (coordinate parse_integer df_mixed ''lon'') (index df_mixed) = [Fin 10, Fin 20, Fin 151]"
  by (simp_all add: df_mixed_def coordinate_def parse_integer_samples)

text \<open>
  Claim C1 says that values which fail numeric coercion are left out of the range check,
  so that a data frame passes when its coerced values are all in range. What the code
  does: the range check compares every entry of the coerced column, and a comparison with
  NaN is false, so one value that fails coercion in either column makes
  \<^verbatim>\<open>validate_csv_coordinates\<close> answer valid = False.
\<close>

theorem validate_csv_coordinates_rejects_failed_coercion:
  assumes "lat_col \<in> set (map fst (columns df))" and "lon_col \<in> set (map fst (columns df))"
    and "list_ex (\<lambda>i. coordinate parse df lat_col i = NaN \<or> coordinate parse df lon_col i = NaN)
           (index df)"
  shows "\<not> fst (validate_csv_coordinates parse df lat_col lon_col)"
proof -
  from assms(1,2) obtain latc lonc where m: "map_of (columns df) lat_col = Some latc"
    "map_of (columns df) lon_col = Some lonc"
    using in_names_map_of by metis
  let ?lats = "to_numeric parse (index df) latc" and ?lons = "to_numeric parse (index df) lonc"
  from assms(3) obtain i where i: "i \<in> set (index df)"
    and "coordinate parse df lat_col i = NaN \<or> coordinate parse df lon_col i = NaN"
    by (auto simp: list_ex_iff)
  with m have "series_at ?lats i = NaN \<or> series_at ?lons i = NaN"
    by (simp add: coordinate_def series_at_to_numeric)
  then have "\<not> (fle (Fin (- 90)) (series_at ?lats i) \<and> fle (series_at ?lats i) (Fin 90))
     \<or> \<not> (fle (Fin (- 180)) (series_at ?lons i) \<and> fle (series_at ?lons i) (Fin 180))"
    by auto
  with i have "\<not> list_all (\<lambda>i. fle (Fin (- 90)) (series_at ?lats i)
                                 \<and> fle (series_at ?lats i) (Fin 90)) (index df)
     \<or> \<not> list_all (\<lambda>i. fle (Fin (- 180)) (series_at ?lons i)
                                 \<and> fle (series_at ?lons i) (Fin 180)) (index df)"
    by (auto simp: list_all_iff)
  then show ?thesis
    using assms(1,2) m
    by (auto simp: validate_csv_coordinates_def get_column_some ebind_simps Let_def)
qed

text \<open>
  In the data frame \<open>df_mixed\<close> both columns have coerced values, all of them in range
  (latitudes 45 and -33, longitudes 10, 20 and 151), and the answer is the latitude
  message.
\<close>

theorem validate_csv_coordinates_rejects_failed_coercion_witness:
  "validate_csv_coordinates parse_integer df_mixed ''lat'' ''lon'' =
     (False, ''Latitude values must be between -90 and 90'')
   \<and> map (coordinate parse_integer df_mixed ''lat'') (index df_mixed) = [NaN, Fin 45, Fin (- 33)]
   \<and> map (coordinate parse_integer df_mixed ''lon'') (index df_mixed) = [Fin 10, Fin 20, Fin 151]"
proof -
  have "\<not> fst (validate_csv_coordinates parse_integer df_mixed ''lat'' ''lon'')"
    using df_mixed_coordinates
    by (intro validate_csv_coordinates_rejects_failed_coercion)
       (simp_all add: df_mixed_def)
  moreover have "snd (validate_csv_coordinates parse_integer df_mixed ''lat'' ''lon'')
      = ''Latitude values must be between -90 and 90''"
    by (simp add: validate_csv_coordinates_def get_column_def to_numeric_def df_mixed_def
        parse_integer_samples isna_def ebind_simps)
  ultimately show ?thesis
    using df_mixed_coordinates by (simp add: prod_eq_iff)
qed

text \<open>
  Claim C3 says that the properties map every other column to its stringified value. In
  the second data frame the column \<^verbatim>\<open>id\<close> holds the int 1, whose string is \<^verbatim>\<open>1\<close>;
  all columns are numeric and two are floats, so the row that \<^verbatim>\<open>iterrows\<close> yields is
  a \<^verbatim>\<open>float64\<close> Series, and the property comes out as \<^verbatim>\<open>1.0\<close>.
\<close>

theorem csv_to_geojson_upcast_counterexample:
  "snd (csv_to_geojson parse_integer str_sample df_numeric ''lat'' ''lon'') =
     Inr (Some (JObj [(''type'', JStr ''FeatureCollection''),
       (''features'', JArr
          [JObj [(''type'', JStr ''Feature''),
                 (''geometry'', JObj [(''type'', JStr ''Point''),
                    (''coordinates'', JArr [JFloat (Fin 10.5), JFloat (Fin 45.5)])]),
                 (''properties'', JObj [(''id'', JStr ''1.0'')])]])]))
   \<and> conversion_result parse_integer column_value str_sample df_numeric ''lat'' ''lon'' =
     Some (JObj [(''type'', JStr ''FeatureCollection''),
       (''features'', JArr
          [JObj [(''type'', JStr ''Feature''),
                 (''geometry'', JObj [(''type'', JStr ''Point''),
                    (''coordinates'', JArr [JFloat (Fin 10.5), JFloat (Fin 45.5)])]),
                 (''properties'', JObj [(''id'', JStr ''1'')])]])])
   \<and> snd (csv_to_geojson parse_integer str_sample df_numeric ''lat'' ''lon'') \<noteq>
       Inr (conversion_result parse_integer column_value str_sample df_numeric ''lat'' ''lon'')"
proof -
  have s: "filter (survives parse_integer df_numeric ''lat'' ''lon'') (index df_numeric) = [0]"
    by (simp add: survives_def coordinate_def df_numeric_def)
  have "common_dtype (map snd (columns (coerced_frame parse_integer ''lat'' ''lon'' df_numeric)))
          = Float64"
    by (simp add: coerced_frame_def df_numeric_def common_dtype_def to_numeric_def)
  then have e: "row_entry parse_integer df_numeric ''lat'' ''lon'' col i = upcast Float64 (col_at col i)"
    for col i
    by (simp add: row_entry_def)
  have "snd (csv_to_geojson parse_integer str_sample df_numeric ''lat'' ''lon'') =
     Inr (conversion_result parse_integer (row_entry parse_integer df_numeric ''lat'' ''lon'')
            str_sample df_numeric ''lat'' ''lon'')"
    by (rule csv_to_geojson_snd) (simp_all add: df_numeric_def)
  then have code: "snd (csv_to_geojson parse_integer str_sample df_numeric ''lat'' ''lon'') =
     Inr (Some (JObj [(''type'', JStr ''FeatureCollection''),
       (''features'', JArr
          [JObj [(''type'', JStr ''Feature''),
                 (''geometry'', JObj [(''type'', JStr ''Point''),
                    (''coordinates'', JArr [JFloat (Fin 10.5), JFloat (Fin 45.5)])]),
                 (''properties'', JObj [(''id'', JStr ''1.0'')])]])]))"
    by (simp add: conversion_result_def s point_feature_def e)
       (simp add: df_numeric_def coordinate_def property_json_def show_int_one)
  have spec: "conversion_result parse_integer column_value str_sample df_numeric ''lat'' ''lon'' =
     Some (JObj [(''type'', JStr ''FeatureCollection''),
       (''features'', JArr
          [JObj [(''type'', JStr ''Feature''),
                 (''geometry'', JObj [(''type'', JStr ''Point''),
                    (''coordinates'', JArr [JFloat (Fin 10.5), JFloat (Fin 45.5)])]),
                 (''properties'', JObj [(''id'', JStr ''1'')])]])])"
    by (simp add: conversion_result_def s point_feature_def column_value_def)
       (simp add: df_numeric_def coordinate_def property_json_def show_int_one)
  show ?thesis
    unfolding code spec by simp
qed

text \<open>
  Claim C3, amended: for every data frame with distinctly named columns that has the two
  coordinate columns, \<^verbatim>\<open>csv_to_geojson\<close> drops exactly the rows in which a coordinate
  fails numeric coercion and turns each surviving row, in order, into a Feature whose
  geometry is the Point (longitude, latitude) of the row's coerced coordinates and whose
  properties map every other column to the stringified entry of the row as
  \<^verbatim>\<open>iterrows\<close> yields it, a missing value to null; when no row survives it returns
  \<^verbatim>\<open>None\<close> and not an empty FeatureCollection. The entry of the row is the column's
  own value, except for an \<^verbatim>\<open>int64\<close> column in a frame that, once its coordinate
  columns are coerced, has no object column and not only \<^verbatim>\<open>int64\<close> columns.
\<close>

theorem csv_to_geojson_features:
  assumes "distinct (map fst (columns df))"
    and "lat_col \<in> set (map fst (columns df))" and "lon_col \<in> set (map fst (columns df))"
  shows "snd (csv_to_geojson parse str_of df lat_col lon_col) =
           Inr (conversion_result parse (row_entry parse df lat_col lon_col) str_of df
                  lat_col lon_col)
         \<and> (\<forall>k col i. (k, col) \<in> set (columns df) \<and> k \<notin> {lat_col, lon_col}
               \<and> (dtype_of col \<noteq> Int64
                  \<or> common_dtype (map snd (columns (coerced_frame parse lat_col lon_col df)))
                      \<noteq> Float64)
               \<longrightarrow> row_entry parse df lat_col lon_col col i = column_value col i)"
  using csv_to_geojson_snd [OF assms] row_entry_column_value by blast

theorem csv_to_geojson_features_witness:
  "snd (csv_to_geojson parse_integer str_sample df_mixed ''lat'' ''lon'') =
     Inr (Some (JObj [(''type'', JStr ''FeatureCollection''),
       (''features'', JArr
          [JObj [(''type'', JStr ''Feature''),
                 (''geometry'', JObj [(''type'', JStr ''Point''),
                    (''coordinates'', JArr [JFloat (Fin 20), JFloat (Fin 45)])]),
                 (''properties'', JObj [(''name'', JNull)])],
           JObj [(''type'', JStr ''Feature''),
                 (''geometry'', JObj [(''type'', JStr ''Point''),
                    (''coordinates'', JArr [JFloat (Fin 151), JFloat (Fin (- 33))])]),
                 (''properties'', JObj [(''name'', JStr ''Sydney'')])]])]))"
proof -
  have s: "filter (survives parse_integer df_mixed ''lat'' ''lon'') (index df_mixed) = [1, 2]"
    by (simp add: survives_def coordinate_def df_mixed_def parse_integer_samples)
  have "common_dtype (map snd (columns (coerced_frame parse_integer ''lat'' ''lon'' df_mixed)))
          = Object"
    by (simp add: coerced_frame_def df_mixed_def common_dtype_def)
  then have e: "row_entry parse_integer df_mixed ''lat'' ''lon'' col i = col_at col i" for col i
    by (simp add: row_entry_def)
  show ?thesis
    using csv_to_geojson_features [of df_mixed "''lat''" "''lon''" parse_integer str_sample]
    by (simp add: conversion_result_def s point_feature_def e)
       (simp add: df_mixed_def coordinate_def property_json_def parse_integer_samples)
qed

text \<open>
  Claim C5 says that no stage changes its input. \<^verbatim>\<open>csv_to_geojson\<close> does: after the
  call the latitude cell of the first row of the caller's data frame, the text
  \<^verbatim>\<open>abc\<close> before, is NaN.
\<close>

theorem csv_to_geojson_overwrites_input_counterexample:
  "map_option (\<lambda>col. col_at col 0) (map_of (columns df_mixed) ''lat'') = Some (Str ''abc'')
   \<and> map_option (\<lambda>col. col_at col 0)
        (map_of (columns (fst (csv_to_geojson parse_integer str_sample df_mixed ''lat'' ''lon'')))
           ''lat'')
       = Some (Num (NFloat NaN))"
proof -
  have "fst (csv_to_geojson parse_integer str_sample df_mixed ''lat'' ''lon'') =
      df_mixed\<lparr>columns := AList.update ''lon''
          (as_column (to_numeric parse_integer (index df_mixed) (IntCol ((!) [10, 20, 151]))))
          (AList.update ''lat''
             (as_column (to_numeric parse_integer (index df_mixed)
                (ObjCol ((!) [Str ''abc'', Str ''45'', Str ''-33'']))))
             (columns df_mixed))\<rparr>"
    by (rule csv_to_geojson_fst) (simp_all add: df_mixed_def)
  then show ?thesis
    by (simp add: update_conv' ) (simp add: df_mixed_def to_numeric_def parse_integer_samples)
qed

text \<open>
  Claim C5, amended: \<^verbatim>\<open>csv_to_geojson\<close> changes the caller's data frame in its two
  coordinate columns only, which afterwards hold the numeric coercions of their former
  values (NaN where the coercion fails); the column names, the index and every other
  column are as before the call. \<^verbatim>\<open>filter_geojson\<close> does not change its input: the
  features of its result are features of the input, as they were and in input order.
\<close>

theorem csv_to_geojson_overwrites_coordinates:
  "(lat_col \<in> set (map fst (columns df)) \<and> lon_col \<in> set (map fst (columns df)) \<longrightarrow>
      index (fst (csv_to_geojson parse str_val df lat_col lon_col)) = index df
      \<and> map fst (columns (fst (csv_to_geojson parse str_val df lat_col lon_col)))
          = map fst (columns df)
      \<and> (\<forall>k. map_of (columns (fst (csv_to_geojson parse str_val df lat_col lon_col))) k =
            (if k = lat_col \<or> k = lon_col
             then map_option (\<lambda>col. as_column (to_numeric parse (index df) col))
                    (map_of (columns df) k)
             else map_of (columns df) k)))
   \<and> (feature_list d = Some fs \<and> filter_geojson str_of d flt = Inr r \<longrightarrow>
      feature_list r = Some (filter (\<lambda>f. include_feature str_of f flt = Inr True) fs))"
proof (intro conjI impI allI)
  assume a: "lat_col \<in> set (map fst (columns df)) \<and> lon_col \<in> set (map fst (columns df))"
  then obtain latc lonc where m: "map_of (columns df) lat_col = Some latc"
    "map_of (columns df) lon_col = Some lonc"
    using in_names_map_of by metis
  note f = csv_to_geojson_fst [OF m, of parse str_val]
  show "index (fst (csv_to_geojson parse str_val df lat_col lon_col)) = index df"
    by (simp add: f)
  show "map fst (columns (fst (csv_to_geojson parse str_val df lat_col lon_col)))
          = map fst (columns df)"
    using a by (simp add: f update_keys)
  fix k
  show "map_of (columns (fst (csv_to_geojson parse str_val df lat_col lon_col))) k =
            (if k = lat_col \<or> k = lon_col
             then map_option (\<lambda>col. as_column (to_numeric parse (index df) col))
                    (map_of (columns df) k)
             else map_of (columns df) k)"
    using m by (auto simp: f update_conv')
next
  assume a: "feature_list d = Some fs \<and> filter_geojson str_of d flt = Inr r"
  show "feature_list r = Some (filter (\<lambda>f. include_feature str_of f flt = Inr True) fs)"
  proof (cases "flt = []")
    case True
    with a show ?thesis by (auto simp: filter_geojson_def)
  next
    case False
    with a obtain kept where k: "filter_loop str_of flt fs [] = Inr kept"
      and r: "r = JObj [(''type'', JStr ''FeatureCollection''), (''features'', JArr kept)]"
      by (cases "filter_loop str_of flt fs []")
         (auto simp: filter_geojson_def feature_list_getitem ebind_simps)
    from filter_loop_kept [OF k] r show ?thesis by simp
  qed
qed

theorem csv_to_geojson_overwrites_coordinates_witness:
  "index (fst (csv_to_geojson parse_integer str_sample df_mixed ''lat'' ''lon'')) = [0, 1, 2]
   \<and> map fst (columns (fst (csv_to_geojson parse_integer str_sample df_mixed ''lat'' ''lon'')))
       = [''lat'', ''lon'', ''name'']
   \<and> map_option (\<lambda>col. map (col_at col) [0, 1, 2])
        (map_of (columns (fst (csv_to_geojson parse_integer str_sample df_mixed ''lat'' ''lon'')))
           ''lat'')
       = Some [Num (NFloat NaN), Num (NFloat (Fin 45)), Num (NFloat (Fin (- 33)))]
   \<and> map_option (\<lambda>col. map (col_at col) [0, 1, 2])
        (map_of (columns (fst (csv_to_geojson parse_integer str_sample df_mixed ''lat'' ''lon'')))
           ''name'')
       = Some [Str ''X'', Num (NFloat NaN), Str ''Sydney'']
   \<and> filter_geojson str_text (collection_of [feature_a ''A'', feature_a ''C''])
        [(''category'', [''A''])] = Inr (collection_of [feature_a ''A''])
   \<and> feature_list (collection_of [feature_a ''A'']) = Some [feature_a ''A'']"
proof -
  have f: "filter_geojson str_text (collection_of [feature_a ''A'', feature_a ''C''])
        [(''category'', [''A''])] = Inr (collection_of [feature_a ''A''])"
    by (simp add: filter_geojson_def collection_of_def feature_a_def ebind_simps)
  have cols: "''lat'' \<in> set (map fst (columns df_mixed))
      \<and> ''lon'' \<in> set (map fst (columns df_mixed))"
    by (simp add: df_mixed_def)
  note t = csv_to_geojson_overwrites_coordinates
      [of "''lat''" df_mixed "''lon''" parse_integer str_sample
          "collection_of [feature_a ''A'', feature_a ''C'']"
          "[feature_a ''A'', feature_a ''C'']" str_text "[(''category'', [''A''])]"
          "collection_of [feature_a ''A'']"]
  from t cols
  have i: "index (fst (csv_to_geojson parse_integer str_sample df_mixed ''lat'' ''lon''))
             = index df_mixed"
    and n: "map fst (columns (fst (csv_to_geojson parse_integer str_sample df_mixed ''lat'' ''lon'')))
             = map fst (columns df_mixed)"
    and m: "\<And>k. map_of (columns (fst (csv_to_geojson parse_integer str_sample df_mixed
                 ''lat'' ''lon''))) k =
            (if k = ''lat'' \<or> k = ''lon''
             then map_option (\<lambda>col. as_column (to_numeric parse_integer (index df_mixed) col))
                    (map_of (columns df_mixed) k)
             else map_of (columns df_mixed) k)"
    by blast+
  from t f have "feature_list (collection_of [feature_a ''A'']) =
      Some (filter (\<lambda>f. include_feature str_text f [(''category'', [''A''])] = Inr True)
              [feature_a ''A'', feature_a ''C''])"
    by (simp add: collection_of_def)
  moreover have "include_feature str_text (feature_a ''A'') [(''category'', [''A''])] = Inr True"
    "include_feature str_text (feature_a ''C'') [(''category'', [''A''])] = Inr False"
    by (simp_all add: feature_a_def ebind_simps)
  ultimately have "feature_list (collection_of [feature_a ''A'']) = Some [feature_a ''A'']"
    by simp
  then show ?thesis
    unfolding i n m
    by (simp add: f) (simp add: df_mixed_def to_numeric_def parse_integer_samples)
qed

section \<open>Properties of process\_geometries and the export\<close>




lemma mapping_type: "py_getitem (mapping g) ''type'' = Inr (JStr (geom_type g))"
  by (cases g) simp_all

lemma keeps_members_getitem:
  "keeps_members kv kv' \<Longrightarrow> (k, v) \<in> set kv \<Longrightarrow> py_getitem (JObj kv') k = Inr v"
  by (auto simp: keeps_members_def list_all_iff)

lemma adds_members_only_processed:
  assumes "adds_members_only (processed_geojson g) d'"
  shows "\<exists>f. py_getitem d' ''type'' = Inr (JStr ''FeatureCollection'')
           \<and> py_getitem d' ''features'' = Inr (JArr [f])
           \<and> py_getitem f ''type'' = Inr (JStr ''Feature'')
           \<and> py_getitem f ''geometry'' = Inr (mapping g)
           \<and> py_getitem f ''properties'' = Inr (JObj [])"
proof -
  let ?f0 = "[(''type'', JStr ''Feature''), (''geometry'', mapping g), (''properties'', JObj [])]"
  from assms obtain kv' fs' where d': "d' = JObj kv'"
    and t: "map_of kv' ''type'' = Some (JStr ''FeatureCollection'')"
    and fs: "map_of kv' ''features'' = Some (JArr fs')"
    and l: "list_all2 feature_kept [JObj ?f0] fs'"
    by (auto simp: adds_members_only_def processed_geojson_def
        split: json.splits option.splits)
  from l obtain f where fs': "fs' = [f]" and k: "feature_kept (JObj ?f0) f"
    by (auto simp: list_all2_Cons1)
  from k obtain m where f: "f = JObj m" and km: "keeps_members ?f0 m"
    by (cases f) auto
  have "py_getitem f ''type'' = Inr (JStr ''Feature'')"
    "py_getitem f ''geometry'' = Inr (mapping g)"
    "py_getitem f ''properties'' = Inr (JObj [])"
    unfolding f by (rule keeps_members_getitem [OF km], simp)+
  with d' t fs fs' show ?thesis by simp
qed

text \<open>
  Claim C7 says that whenever the combination succeeds a document is exported. When the
  geometries are empty, \<^verbatim>\<open>process_geometries\<close> returns a geometry without an error, an
  empty one, and \<^verbatim>\<open>main\<close> exports nothing, since \<^verbatim>\<open>if combined_geometry:\<close> is false
  for an empty geometry.
\<close>

theorem exported_geojson_empty_counterexample:
  "process_geometries shape_polygon union_single (collection_of [empty_polygon_feature])
     = Some (MultiPolygon [])
   \<and> exported_geojson shape_polygon union_single shown_with_id
        (collection_of [empty_polygon_feature]) = None"
proof -
  have p: "process_geometries shape_polygon union_single (collection_of [empty_polygon_feature])
     = Some (MultiPolygon [])"
    by (simp add: process_geometries_def multi_polygon_def collection_of_def
        empty_polygon_feature_def shape_polygon_def ebind_simps ring_list_empty_def)
  then show ?thesis
    by (simp add: exported_geojson_def)
qed

text \<open>
  Claim C7, amended: whenever \<^verbatim>\<open>process_geometries\<close> returns a geometry that is not
  empty, and the map display only adds members to the document it is shown, the exported
  document is a FeatureCollection with exactly one Feature, whose geometry is the GeoJSON
  mapping of the combined geometry, of the combined geometry's type, and whose properties
  mapping is empty; when \<^verbatim>\<open>process_geometries\<close> returns nothing or an empty geometry,
  nothing is exported.
\<close>

theorem exported_geojson_single_feature:
  "(process_geometries shape unary_union d = Some g \<and> \<not> is_empty g
      \<and> adds_members_only (processed_geojson g) (shown d (processed_geojson g)) \<longrightarrow>
      (\<exists>doc f. exported_geojson shape unary_union shown d = Some doc
         \<and> py_getitem doc ''type'' = Inr (JStr ''FeatureCollection'')
         \<and> py_getitem doc ''features'' = Inr (JArr [f])
         \<and> py_getitem f ''type'' = Inr (JStr ''Feature'')
         \<and> py_getitem f ''geometry'' = Inr (mapping g)
         \<and> py_getitem (mapping g) ''type'' = Inr (JStr (geom_type g))
         \<and> py_getitem f ''properties'' = Inr (JObj [])))
   \<and> (process_geometries shape unary_union d = None
        \<or> (\<exists>g. process_geometries shape unary_union d = Some g \<and> is_empty g) \<longrightarrow>
      exported_geojson shape unary_union shown d = None)"
proof (intro conjI impI)
  assume a: "process_geometries shape unary_union d = Some g \<and> \<not> is_empty g
      \<and> adds_members_only (processed_geojson g) (shown d (processed_geojson g))"
  then have "exported_geojson shape unary_union shown d = Some (shown d (processed_geojson g))"
    by (simp add: exported_geojson_def)
  moreover from a obtain f where
    "py_getitem (shown d (processed_geojson g)) ''type'' = Inr (JStr ''FeatureCollection'')"
    "py_getitem (shown d (processed_geojson g)) ''features'' = Inr (JArr [f])"
    "py_getitem f ''type'' = Inr (JStr ''Feature'')"
    "py_getitem f ''geometry'' = Inr (mapping g)"
    "py_getitem f ''properties'' = Inr (JObj [])"
    using adds_members_only_processed by blast
  ultimately show "\<exists>doc f. exported_geojson shape unary_union shown d = Some doc
         \<and> py_getitem doc ''type'' = Inr (JStr ''FeatureCollection'')
         \<and> py_getitem doc ''features'' = Inr (JArr [f])
         \<and> py_getitem f ''type'' = Inr (JStr ''Feature'')
         \<and> py_getitem f ''geometry'' = Inr (mapping g)
         \<and> py_getitem (mapping g) ''type'' = Inr (JStr (geom_type g))
         \<and> py_getitem f ''properties'' = Inr (JObj [])"
    using mapping_type by blast
next
  assume "process_geometries shape unary_union d = None
        \<or> (\<exists>g. process_geometries shape unary_union d = Some g \<and> is_empty g)"
  then show "exported_geojson shape unary_union shown d = None"
    by (auto simp: exported_geojson_def)
qed

lemma square_processed:
  "process_geometries shape_polygon union_single (collection_of [square_feature])
     = Some (MultiPolygon [square])"
  by (simp add: process_geometries_def multi_polygon_def collection_of_def square_feature_def
        square_def shape_polygon_def ebind_simps ring_list_empty_def)

theorem exported_geojson_single_feature_witness:
  "exported_geojson shape_polygon union_single shown_with_id (collection_of [square_feature])
     = Some (JObj [(''type'', JStr ''FeatureCollection''),
          (''features'',
             JArr [JObj [(''type'', JStr ''Feature''),
                         (''geometry'',
                            JObj [(''type'', JStr ''MultiPolygon''),
                                  (''coordinates'',
                                     JArr [JArr [JArr [JArr [JFloat (Fin 0), JFloat (Fin 0)],
                                                       JArr [JFloat (Fin 1), JFloat (Fin 0)],
                                                       JArr [JFloat (Fin 1), JFloat (Fin 1)],
                                                       JArr [JFloat (Fin 0), JFloat (Fin 1)],
                                                       JArr [JFloat (Fin 0), JFloat (Fin 0)]]]])]),
                         (''properties'', JObj []),
                         (''id'', JStr ''0'')]])])"
proof -
  let ?d = "collection_of [square_feature]"
  let ?g = "MultiPolygon [square]"
  have e: "\<not> is_empty ?g"
    by (simp add: square_def ring_list_empty_def)
  have a: "adds_members_only (processed_geojson ?g) (shown_with_id ?d (processed_geojson ?g))"
    by (simp add: adds_members_only_def processed_geojson_def keeps_members_def)
  from exported_geojson_single_feature [of shape_polygon union_single ?d ?g shown_with_id]
    square_processed e a
  obtain doc where "exported_geojson shape_polygon union_single shown_with_id ?d = Some doc"
    by blast
  moreover have "exported_geojson shape_polygon union_single shown_with_id ?d
      = Some (shown_with_id ?d (processed_geojson ?g))"
    using e by (simp add: exported_geojson_def square_processed)
  ultimately show ?thesis
    by (simp add: processed_geojson_def square_def rings_json_def line_json_def
        position_json_def)
qed

end
